theory Spec2Isabelle
  imports Main "HOL-Library.Word"
begin

unbundle bit_operations_syntax

section \<open>The bzz gateway handlers of pkg/api/bzz.go\<close>

text \<open>
  A shallow embedding of \<^verbatim>\<open>fileUploadHandler\<close>, \<^verbatim>\<open>bzzDownloadHandler\<close>,
  \<^verbatim>\<open>serveReference\<close>, \<^verbatim>\<open>serveManifestEntry\<close>, \<^verbatim>\<open>downloadHandler\<close>,
  \<^verbatim>\<open>manifestMetadataLoad\<close> and \<^verbatim>\<open>manifestFeed\<close>. \<^verbatim>\<open>bzzUploadHandler\<close>, which obtains
  the putter and chooses between the directory and the file handler, is left out: of its
  results, \<open>waitFn\<close> is an argument of the file handler, and the storer is behind the
  pipeline and the manifest of the service.

  The handlers call packages whose code is outside this file (manifest, feeds, tags,
  joiner, jsonhttp, the pipeline, pinning, the postage putter). Each of them is a
  parameter: an interface value is a record of functions, a package constant or a
  helper of package api that lives in another file is a field of the record \<open>Service\<close>
  or \<open>request\<close>. Theorems therefore hold for every behaviour of the collaborators.
  Functions of Go's standard library that the handlers call (strings, path, path/filepath,
  encoding/hex, strconv, net/http header keys) are written out.
\<close>

subsection \<open>Bytes, addresses and encoding/hex\<close>

type_synonym byte = "8 word"

text \<open>\<^verbatim>\<open>swarm.Address\<close> wraps a byte slice; \<^verbatim>\<open>String()\<close> is its hex form.\<close>

type_synonym address = "byte list"

definition hextable :: string where
  "hextable = ''0123456789abcdef''"

text \<open>\<^verbatim>\<open>hex.EncodeToString\<close>: two digits per byte, \<^verbatim>\<open>hextable[v>>4]\<close> then
  \<^verbatim>\<open>hextable[v&0x0f]\<close>.\<close>

fun EncodeToString :: "byte list \<Rightarrow> string" where
  "EncodeToString [] = []"
| "EncodeToString (v # src) =
     hextable ! unat (drop_bit 4 v) # hextable ! unat (v AND 0x0f) # EncodeToString src"

definition address_String :: "address \<Rightarrow> string" where
  "address_String a = EncodeToString a"

text \<open>\<^verbatim>\<open>fromHexChar\<close>: both cases of the letters are accepted.\<close>

definition fromHexChar :: "char \<Rightarrow> byte option" where
  "fromHexChar c =
     map_of
       [(CHR ''0'', 0), (CHR ''1'', 1), (CHR ''2'', 2), (CHR ''3'', 3), (CHR ''4'', 4),
        (CHR ''5'', 5), (CHR ''6'', 6), (CHR ''7'', 7), (CHR ''8'', 8), (CHR ''9'', 9),
        (CHR ''a'', 10), (CHR ''b'', 11), (CHR ''c'', 12), (CHR ''d'', 13), (CHR ''e'', 14),
        (CHR ''f'', 15),
        (CHR ''A'', 10), (CHR ''B'', 11), (CHR ''C'', 12), (CHR ''D'', 13), (CHR ''E'', 14),
        (CHR ''F'', 15)] c"

text \<open>
  Errors are values. The named ones are the sentinels the handlers match with
  \<^verbatim>\<open>errors.Is\<close>; \<open>Wrapf\<close> is \<^verbatim>\<open>fmt.Errorf("...: %w", err)\<close>, \<open>Errorf\<close> is
  \<^verbatim>\<open>fmt.Errorf\<close> without a wrapped error, \<open>OtherError\<close> is any other error value of a
  collaborator.
\<close>

datatype error =
    tags_ErrNotFound
  | postage_ErrBucketFull
  | manifest_ErrInvalidManifestType
  | manifest_ErrNotFound
  | storage_ErrNotFound
  | hex_InvalidByteError char
  | hex_ErrLength
  | Errorf string
  | Wrapf string error
  | OtherError nat

fun errors_Is :: "error \<Rightarrow> error \<Rightarrow> bool" where
  "errors_Is (Wrapf msg e) target = (Wrapf msg e = target \<or> errors_Is e target)"
| "errors_Is e target = (e = target)"

text \<open>
  \<^verbatim>\<open>hex.DecodeString\<close>: pairs of digits; an invalid digit is reported before an odd
  length. The bytes decoded before an error are dropped by the only caller.
\<close>

fun DecodeString :: "string \<Rightarrow> error + byte list" where
  "DecodeString [] = Inr []"
| "DecodeString [p] =
     (case fromHexChar p of None \<Rightarrow> Inl (hex_InvalidByteError p) | Some a \<Rightarrow> Inl hex_ErrLength)"
| "DecodeString (p # q # src) =
     (case fromHexChar p of
        None \<Rightarrow> Inl (hex_InvalidByteError p)
      | Some a \<Rightarrow>
          (case fromHexChar q of
             None \<Rightarrow> Inl (hex_InvalidByteError q)
           | Some b \<Rightarrow>
               (case DecodeString src of
                  Inl err \<Rightarrow> Inl err
                | Inr dst \<Rightarrow> Inr ((push_bit 4 a OR b) # dst))))"

subsection \<open>strings, path, path/filepath, strconv\<close>

definition strings_HasPrefix :: "string \<Rightarrow> string \<Rightarrow> bool" where
  "strings_HasPrefix s pre = (length s \<ge> length pre \<and> take (length pre) s = pre)"

definition strings_HasSuffix :: "string \<Rightarrow> string \<Rightarrow> bool" where
  "strings_HasSuffix s suffix =
     (length s \<ge> length suffix \<and> drop (length s - length suffix) s = suffix)"

text \<open>\<^verbatim>\<open>strings.TrimRight(s, cutset)\<close> removes every trailing character of the cutset.\<close>

definition strings_TrimRight :: "string \<Rightarrow> string \<Rightarrow> string" where
  "strings_TrimRight s cutset = rev (dropWhile (\<lambda>c. c \<in> set cutset) (rev s))"

fun strings_Join :: "string list \<Rightarrow> string \<Rightarrow> string" where
  "strings_Join [] sep = []"
| "strings_Join [e] sep = e"
| "strings_Join (e # es) sep = e @ sep @ strings_Join es sep"

fun split_slash :: "string \<Rightarrow> string list" where
  "split_slash [] = [[]]"
| "split_slash (c # cs) =
     (if c = CHR ''/'' then [] # split_slash cs
      else (case split_slash cs of [] \<Rightarrow> [[c]] | e # es \<Rightarrow> (c # e) # es))"

text \<open>
  \<^verbatim>\<open>path.Clean\<close>, element by element: empty and \<^verbatim>\<open>.\<close> elements are dropped, a
  \<^verbatim>\<open>..\<close> removes the element before it when there is one that is not itself \<^verbatim>\<open>..\<close>,
  is kept in a path that is not rooted, and is dropped at the root. \<open>out\<close> is the output
  so far, last element first.
\<close>

fun clean_elems :: "bool \<Rightarrow> string list \<Rightarrow> string list \<Rightarrow> string list" where
  "clean_elems rooted out [] = rev out"
| "clean_elems rooted out (e # es) =
     (if e = [] \<or> e = ''.'' then clean_elems rooted out es
      else if e = ''..'' then
        (case out of
           x # out' \<Rightarrow>
             if x \<noteq> ''..'' then clean_elems rooted out' es
             else if \<not> rooted then clean_elems rooted (e # out) es
             else clean_elems rooted out es
         | [] \<Rightarrow>
             if \<not> rooted then clean_elems rooted (e # out) es
             else clean_elems rooted out es)
      else clean_elems rooted (e # out) es)"

definition path_Clean :: "string \<Rightarrow> string" where
  "path_Clean p =
     (if p = [] then ''.''
      else
        let rooted = (hd p = CHR ''/'');
            out = (if rooted then ''/'' else []) @
                  strings_Join (clean_elems rooted [] (split_slash p)) ''/''
        in if out = [] then ''.'' else out)"

text \<open>\<^verbatim>\<open>path.Join\<close> of two elements: empty elements are ignored, the rest is cleaned.\<close>

definition path_Join :: "string \<Rightarrow> string \<Rightarrow> string" where
  "path_Join a b =
     (if a = [] \<and> b = [] then []
      else if a = [] then path_Clean b
      else path_Clean (a @ ''/'' @ b))"

text \<open>\<^verbatim>\<open>filepath.Base\<close> on a system whose separator is the slash.\<close>

definition filepath_Base :: "string \<Rightarrow> string" where
  "filepath_Base p =
     (if p = [] then ''.''
      else
        let p1 = rev (dropWhile (\<lambda>c. c = CHR ''/'') (rev p));
            p2 = rev (takeWhile (\<lambda>c. c \<noteq> CHR ''/'') (rev p1))
        in if p2 = [] then ''/'' else p2)"

fun FormatNat :: "nat \<Rightarrow> string" where
  "FormatNat n =
     (if n < 10 then [''0123456789'' ! n]
      else FormatNat (n div 10) @ [''0123456789'' ! (n mod 10)])"

text \<open>\<^verbatim>\<open>strconv.FormatInt(l, 10)\<close>.\<close>

definition FormatInt :: "int \<Rightarrow> string" where
  "FormatInt l = (if l < 0 then CHR ''-'' # FormatNat (nat (- l)) else FormatNat (nat l))"

text \<open>
  \<^verbatim>\<open>fmt.Sprintf("%q", x)\<close> for a hex string: nothing in it needs an escape, so the
  result is the string between two double quotes.
\<close>

definition Sprintf_q :: "string \<Rightarrow> string" where
  "Sprintf_q str = [CHR 0x22] @ str @ [CHR 0x22]"

declare FormatNat.simps [simp del]

subsection \<open>net/http header keys\<close>

text \<open>
  \<^verbatim>\<open>Header.Set\<close> stores a value under \<^verbatim>\<open>textproto.CanonicalMIMEHeaderKey\<close> of the
  name: a name with a byte that is not a token character is left alone, otherwise the
  first letter and every letter after a hyphen is upper case and the others lower case
  (so \<^verbatim>\<open>ETag\<close> is stored as \<^verbatim>\<open>Etag\<close>).
\<close>

definition lower_letters :: string where
  "lower_letters = ''abcdefghijklmnopqrstuvwxyz''"

definition upper_letters :: string where
  "upper_letters = ''ABCDEFGHIJKLMNOPQRSTUVWXYZ''"

definition validHeaderFieldByte :: "char \<Rightarrow> bool" where
  "validHeaderFieldByte c =
     (c \<in> set lower_letters \<or> c \<in> set upper_letters \<or> c \<in> set ''0123456789'' \<or>
      c \<in> set ''!#$%&*+-.^_|~'' \<or> c = CHR 0x27 \<or> c = CHR 0x60)"

fun canonical_from :: "bool \<Rightarrow> string \<Rightarrow> string" where
  "canonical_from upper [] = []"
| "canonical_from upper (c # cs) =
     (let c' = (if upper then (case map_of (zip lower_letters upper_letters) c of
                                 Some u \<Rightarrow> u | None \<Rightarrow> c)
                else (case map_of (zip upper_letters lower_letters) c of
                        Some l \<Rightarrow> l | None \<Rightarrow> c))
      in c' # canonical_from (c' = CHR ''-'') cs)"

definition CanonicalMIMEHeaderKey :: "string \<Rightarrow> string" where
  "CanonicalMIMEHeaderKey s =
     (if \<forall>c \<in> set s. validHeaderFieldByte c then canonical_from True s else s)"

subsection \<open>Data of the collaborating packages\<close>

text \<open>\<^verbatim>\<open>manifest.Entry\<close>: \<^verbatim>\<open>Reference()\<close> and \<^verbatim>\<open>Metadata()\<close>, a Go map.\<close>

record entry =
  Reference :: address
  Metadata :: "string \<rightharpoonup> string"

text \<open>Reading a Go map without the \<^verbatim>\<open>ok\<close> result gives the empty string for a
  missing key.\<close>

definition map_index :: "(string \<rightharpoonup> string) \<Rightarrow> string \<Rightarrow> string" where
  "map_index m k = (case m k of None \<Rightarrow> [] | Some v \<Rightarrow> v)"

text \<open>\<^verbatim>\<open>manifest.Interface\<close>, as far as a download uses it.\<close>

record manifest =
  Lookup :: "string \<Rightarrow> error + entry"
  HasPrefix :: "string \<Rightarrow> error + bool"

type_synonym chunk = "byte list"

text \<open>\<^verbatim>\<open>feeds.Index\<close>: only \<^verbatim>\<open>MarshalBinary\<close> is called.\<close>

record index =
  MarshalBinary :: "error + byte list"

text \<open>
  \<^verbatim>\<open>feeds.Lookup\<close>: \<^verbatim>\<open>At(ctx, at, after)\<close> returns \<^verbatim>\<open>(ch, cur, next, err)\<close>; the handler
  drops \<^verbatim>\<open>next\<close>. \<open>None\<close> is the nil chunk.
\<close>

record feeds_Lookup =
  At :: "int \<Rightarrow> int \<Rightarrow> error + (chunk option \<times> index)"

text \<open>\<^verbatim>\<open>feeds.Type\<close> is an integer type; \<^verbatim>\<open>new(feeds.Type)\<close> points to its zero value.\<close>

type_synonym feeds_Type = int

record feed =
  Topic :: "byte list"
  Owner :: "byte list"

text \<open>\<^verbatim>\<open>common.BytesToAddress\<close>: the last 20 bytes, padded with zeros on the left.\<close>

definition BytesToAddress :: "byte list \<Rightarrow> byte list" where
  "BytesToAddress b =
     (let b' = (if length b > 20 then drop (length b - 20) b else b)
      in replicate (20 - length b') 0 @ b')"

definition feeds_New :: "byte list \<Rightarrow> byte list \<Rightarrow> feed" where
  "feeds_New topic owner = \<lparr>Topic = topic, Owner = owner\<rparr>"

text \<open>\<^verbatim>\<open>url.URL\<close>: the handler only appends to \<^verbatim>\<open>Path\<close>; the other parts are kept.\<close>

record url =
  Path :: string
  RawQuery :: string

subsection \<open>Responses and the log of calls\<close>

text \<open>The argument handed to a \<^verbatim>\<open>jsonhttp\<close> responder.\<close>

datatype payload =
    nil
  | Str string
  | Err string
  | StatusResponse string nat "(string \<times> string) list"
  | bzzUploadResponse address

text \<open>
  How a handler ends: one of the \<^verbatim>\<open>jsonhttp\<close> responders, \<^verbatim>\<open>http.Redirect\<close> with the
  URL and the status code, or \<^verbatim>\<open>http.ServeContent\<close> of the joiner's reader for a
  reference, with the content length and the size of the look-ahead buffer.
\<close>

datatype reply =
    BadRequest payload
  | NotFound payload
  | PaymentRequired payload
  | InternalServerError payload
  | Created payload
  | Redirect url nat
  | ServeContent address int int

text \<open>
  The calls to collaborators that the properties speak about, in the order in which a
  handler makes them.
\<close>

datatype event =
    ManifestLoad address
  | ManifestFeed
  | FeedAt int
  | TagIncN int
  | PipelineStore
  | ManifestAdd string entry
  | ManifestSave int
  | ManifestStore
  | TagDoneSplit address
  | CreatePin address
  | Wait

text \<open>
  \<open>w\<close>: the headers of the \<^verbatim>\<open>http.ResponseWriter\<close> and the calls made so far.
\<close>

record state =
  Header :: "string \<rightharpoonup> string"
  calls :: "event list"

definition Header_Set :: "state \<Rightarrow> string \<Rightarrow> string \<Rightarrow> state" where
  "Header_Set w key val = w\<lparr>Header := (Header w)(CanonicalMIMEHeaderKey key \<mapsto> val)\<rparr>"

definition call :: "event \<Rightarrow> state \<Rightarrow> state" where
  "call ev w = w\<lparr>calls := calls w @ [ev]\<rparr>"

subsection \<open>The service and the request\<close>

text \<open>
  \<open>Service\<close> holds what \<^verbatim>\<open>s *Service\<close> reaches and what package api and the packages
  it imports declare outside this file: constructors and methods of the
  collaborators, helper functions, header names and metadata keys. Calls that change
  the tag, the store or the manifest being built take the log of the calls made so far,
  so their result may depend on everything that happened before.
\<close>

record Service =
  \<comment> \<open>header names and metadata keys\<close>
  SwarmFeedIndexHeader :: string
  SwarmTagHeader :: string
  contentTypeHeader :: string
  WebsiteIndexDocumentSuffixKey :: string
  WebsiteErrorDocumentPathKey :: string
  EntryMetadataContentTypeKey :: string
  EntryMetadataFilenameKey :: string
  feedMetadataEntryOwner :: string
  feedMetadataEntryTopic :: string
  feedMetadataEntryType :: string
  errFileStore :: string
  ZeroAddress :: address
  validationError :: "string \<Rightarrow> string \<Rightarrow> error \<Rightarrow> string"
  \<comment> \<open>download\<close>
  NewDefaultManifestReference :: "address \<Rightarrow> error + manifest"
  Type_FromString :: "string \<Rightarrow> error + feeds_Type"
  feedFactory_NewLookup :: "feeds_Type \<Rightarrow> feed \<Rightarrow> error + feeds_Lookup"
  parseFeedUpdate :: "chunk \<Rightarrow> error + (address \<times> int)"
  time_Now_Unix :: int
  joiner_New :: "address \<Rightarrow> error + int"
  lookaheadBufferSize :: "int \<Rightarrow> int"
  \<comment> \<open>upload\<close>
  getOrCreateTag :: "string \<Rightarrow> error + (nat \<times> bool)"
  tag_IncN :: "event list \<Rightarrow> int \<Rightarrow> error option"
  tag_DoneSplit :: "event list \<Rightarrow> address \<Rightarrow> error option"
  pipeline :: "event list \<Rightarrow> error + address"
  calculateNumberOfChunks :: "int \<Rightarrow> bool \<Rightarrow> int"
  NewDefaultManifest :: "bool \<Rightarrow> error option"
  manifest_Add :: "event list \<Rightarrow> string \<Rightarrow> entry \<Rightarrow> error option"
  manifest_nodes :: "event list \<Rightarrow> int list"
  loadsave_Save :: "event list \<Rightarrow> int \<Rightarrow> error option"
  manifest_Reference :: "event list \<Rightarrow> address"
  pinning_CreatePin :: "event list \<Rightarrow> address \<Rightarrow> error option"

text \<open>
  \<open>request\<close>: what the handlers read from \<^verbatim>\<open>r *http.Request\<close>, directly or through
  the helpers \<^verbatim>\<open>requestCalculateNumberOfChunks\<close>, \<^verbatim>\<open>requestEncrypt\<close> and
  \<^verbatim>\<open>requestPin\<close> of package api. \<open>Query_name\<close> is the query parameter \<^verbatim>\<open>name\<close>, the
  empty string when it is not given; \<open>Header_Get\<close> is \<^verbatim>\<open>r.Header.Get\<close>. \<open>Vars\<close> is the
  outcome of \<^verbatim>\<open>s.mapStructure(mux.Vars(r), &paths)\<close>, which maps and resolves the route
  variables: the reasons of a failure, or the address and the path.
\<close>

record request =
  URL :: url
  Query_name :: string
  Header_Get :: "string \<Rightarrow> string"
  requestCalculateNumberOfChunks :: int
  requestEncrypt :: bool
  requestPin :: bool
  Vars :: "(string \<times> string) list + (address \<times> string)"

text \<open>Modelled from the spec: the root path of a manifest, \<^verbatim>\<open>manifest.RootPath\<close>, which the
  spec gives as \<^verbatim>\<open>"/"\<close> (the path that holds the root-level metadata); its declaration
  is in package manifest.\<close>

definition RootPath :: string where
  "RootPath = ''/''"

subsection \<open>Download: \<^verbatim>\<open>downloadHandler\<close> and \<^verbatim>\<open>serveManifestEntry\<close>\<close>

text \<open>
  \<open>additionalHeaders\<close> is a list of names with their values. The loop of
  \<^verbatim>\<open>downloadHandler\<close> over the Go map sets one header per name; the map has at most the
  two names \<^verbatim>\<open>Content-Disposition\<close> and \<^verbatim>\<open>Content-Type\<close>, so the order of the loop
  does not show.
\<close>

fun set_additionalHeaders :: "state \<Rightarrow> (string \<times> string list) list \<Rightarrow> state" where
  "set_additionalHeaders w [] = w"
| "set_additionalHeaders w ((name, values) # hs) =
     set_additionalHeaders (Header_Set w name (strings_Join values ''; '')) hs"

definition downloadHandler ::
  "Service \<Rightarrow> state \<Rightarrow> address \<Rightarrow> (string \<times> string list) list \<Rightarrow> bool \<Rightarrow> state \<times> reply"
where
  "downloadHandler s w reference additionalHeaders etag =
     (case joiner_New s reference of
        Inl err \<Rightarrow>
          if errors_Is err storage_ErrNotFound then (w, NotFound nil)
          else (w, InternalServerError (Str ''joiner failed''))
      | Inr l \<Rightarrow>
          let w = set_additionalHeaders w additionalHeaders;
              w = (if etag then Header_Set w ''ETag'' (Sprintf_q (address_String reference))
                   else w);
              w = Header_Set w ''Content-Length'' (FormatInt l);
              w = Header_Set w ''Access-Control-Expose-Headers'' ''Content-Disposition''
          in (w, ServeContent reference l (lookaheadBufferSize s l)))"

definition serveManifestEntry :: "Service \<Rightarrow> state \<Rightarrow> entry \<Rightarrow> bool \<Rightarrow> state \<times> reply" where
  "serveManifestEntry s w manifestEntry etag =
     (let mtdt = Metadata manifestEntry;
          additionalHeaders =
            (case mtdt (EntryMetadataFilenameKey s) of
               Some fname \<Rightarrow>
                 [(''Content-Disposition'',
                   [''inline; filename='' @ [CHR 0x22] @ filepath_Base fname @ [CHR 0x22]])]
             | None \<Rightarrow> []) @
            (case mtdt (EntryMetadataContentTypeKey s) of
               Some mimeType \<Rightarrow> [(''Content-Type'', [mimeType])]
             | None \<Rightarrow> [])
      in downloadHandler s w (Reference manifestEntry) additionalHeaders etag)"

subsection \<open>Download: \<^verbatim>\<open>manifestMetadataLoad\<close> and \<^verbatim>\<open>manifestFeed\<close>\<close>

definition manifestMetadataLoad :: "manifest \<Rightarrow> string \<Rightarrow> string \<Rightarrow> string \<times> bool" where
  "manifestMetadataLoad m path metadataKey =
     (case Lookup m path of
        Inl err \<Rightarrow> ([], False)
      | Inr me \<Rightarrow>
          (case Metadata me metadataKey of
             Some val \<Rightarrow> (val, True)
           | None \<Rightarrow> ([], False)))"

text \<open>
  \<^verbatim>\<open>manifestFeed\<close>. A metadata value is decoded only when it is not the empty string;
  \<open>owner\<close> and \<open>topic\<close> start as nil slices and \<open>t\<close> as the zero type.
\<close>

definition manifestFeed :: "Service \<Rightarrow> manifest \<Rightarrow> error + feeds_Lookup" where
  "manifestFeed s m =
     (case Lookup m ''/'' of
        Inl err \<Rightarrow> Inl (Wrapf ''node lookup'' err)
      | Inr e \<Rightarrow>
          let meta = Metadata e in
          (case (if map_index meta (feedMetadataEntryOwner s) \<noteq> []
                 then DecodeString (map_index meta (feedMetadataEntryOwner s)) else Inr []) of
             Inl err \<Rightarrow> Inl err
           | Inr owner \<Rightarrow>
               (case (if map_index meta (feedMetadataEntryTopic s) \<noteq> []
                      then DecodeString (map_index meta (feedMetadataEntryTopic s)) else Inr []) of
                  Inl err \<Rightarrow> Inl err
                | Inr topic \<Rightarrow>
                    (case (if map_index meta (feedMetadataEntryType s) \<noteq> []
                           then Type_FromString s (map_index meta (feedMetadataEntryType s))
                           else Inr 0) of
                       Inl err \<Rightarrow> Inl err
                     | Inr t \<Rightarrow>
                         if length owner = 0 \<or> length topic = 0
                         then Inl (Errorf ''node lookup: feed metadata absent'')
                         else feedFactory_NewLookup s t (feeds_New topic (BytesToAddress owner))))))"

subsection \<open>Download: \<^verbatim>\<open>serveReference\<close>\<close>

text \<open>
  The three blocks that follow a lookup answered with \<^verbatim>\<open>manifest.ErrNotFound\<close>. Each
  one either writes the response and returns (\<open>Some\<close>) or falls through to the next
  statement (\<open>None\<close>).
\<close>

text \<open>"check for directory": the redirect goes to the request's URL with a slash
  appended to its path.\<close>

definition checkDirectory ::
  "request \<Rightarrow> manifest \<Rightarrow> string \<Rightarrow> state \<Rightarrow> (state \<times> reply) option"
where
  "checkDirectory r m pathVar w =
     (if \<not> strings_HasPrefix pathVar ''/'' then
        (let dirPath = pathVar @ ''/'' in
         case HasPrefix m dirPath of
           Inr exists \<Rightarrow>
             if exists then Some (w, Redirect ((URL r)\<lparr>Path := Path (URL r) @ ''/''\<rparr>) 308)
             else None
         | Inl err \<Rightarrow> None)
      else None)"

text \<open>"check index suffix path"\<close>

definition checkIndexSuffix ::
  "Service \<Rightarrow> manifest \<Rightarrow> string \<Rightarrow> bool \<Rightarrow> state \<Rightarrow> (state \<times> reply) option"
where
  "checkIndexSuffix s m pathVar feedDereferenced w =
     (case manifestMetadataLoad m RootPath (WebsiteIndexDocumentSuffixKey s) of
        (indexDocumentSuffixKey, ok) \<Rightarrow>
          if ok then
            (if \<not> strings_HasSuffix pathVar indexDocumentSuffixKey then
               (let pathWithIndex = path_Join pathVar indexDocumentSuffixKey in
                case Lookup m pathWithIndex of
                  Inr indexDocumentManifestEntry \<Rightarrow>
                    Some (serveManifestEntry s w indexDocumentManifestEntry (\<not> feedDereferenced))
                | Inl err \<Rightarrow> None)
             else None)
          else None)"

text \<open>"check if error document is to be shown"\<close>

definition checkErrorDocument ::
  "Service \<Rightarrow> manifest \<Rightarrow> string \<Rightarrow> bool \<Rightarrow> state \<Rightarrow> (state \<times> reply) option"
where
  "checkErrorDocument s m pathVar feedDereferenced w =
     (case manifestMetadataLoad m RootPath (WebsiteErrorDocumentPathKey s) of
        (errorDocumentPath, ok) \<Rightarrow>
          if ok then
            (if pathVar \<noteq> errorDocumentPath then
               (case Lookup m errorDocumentPath of
                  Inr errorDocumentManifestEntry \<Rightarrow>
                    Some (serveManifestEntry s w errorDocumentManifestEntry (\<not> feedDereferenced))
                | Inl err \<Rightarrow> None)
             else None)
          else None)"

text \<open>
  The part of \<^verbatim>\<open>serveReference\<close> after the feed block: the manifest \<open>m\<close> is loaded and
  \<open>feedDereferenced\<close> has its final value.
\<close>

definition servePath ::
  "Service \<Rightarrow> request \<Rightarrow> manifest \<Rightarrow> string \<Rightarrow> bool \<Rightarrow> state \<Rightarrow> state \<times> reply"
where
  "servePath s r m pathVar feedDereferenced w =
     (if pathVar = [] then
        (case manifestMetadataLoad m RootPath (WebsiteIndexDocumentSuffixKey s) of
           (indexDocumentSuffixKey, ok) \<Rightarrow>
             if ok then
               (let pathWithIndex = path_Join pathVar indexDocumentSuffixKey in
                case Lookup m pathWithIndex of
                  Inr indexDocumentManifestEntry \<Rightarrow>
                    serveManifestEntry s w indexDocumentManifestEntry (\<not> feedDereferenced)
                | Inl err \<Rightarrow> (w, NotFound (Str ''address not found or incorrect'')))
             else (w, NotFound (Str ''address not found or incorrect'')))
      else
        (case Lookup m pathVar of
           Inl err \<Rightarrow>
             if errors_Is err manifest_ErrNotFound then
               (case checkDirectory r m pathVar w of
                  Some done \<Rightarrow> done
                | None \<Rightarrow>
                    (case checkIndexSuffix s m pathVar feedDereferenced w of
                       Some done \<Rightarrow> done
                     | None \<Rightarrow>
                         (case checkErrorDocument s m pathVar feedDereferenced w of
                            Some done \<Rightarrow> done
                          | None \<Rightarrow> (w, NotFound (Str ''path address not found'')))))
             else (w, NotFound nil)
         | Inr me \<Rightarrow> serveManifestEntry s w me (\<not> feedDereferenced)))"

text \<open>
  The label \<^verbatim>\<open>FETCH\<close>: the manifest at \<open>address\<close> is loaded, the feed block runs when
  \<open>feedDereferenced\<close> is false, and \<^verbatim>\<open>goto FETCH\<close> is the recursive call, with the
  address of the update and the flag the block has set. Without a feed the function
  goes on with the path.
\<close>

function serveReference_FETCH ::
  "Service \<Rightarrow> request \<Rightarrow> address \<Rightarrow> string \<Rightarrow> bool \<Rightarrow> state \<Rightarrow> state \<times> reply"
where
  "serveReference_FETCH s r address pathVar feedDereferenced w =
     (let w = call (ManifestLoad address) w in
      case NewDefaultManifestReference s address of
        Inl err \<Rightarrow> (w, NotFound nil)
      | Inr m \<Rightarrow>
          if \<not> feedDereferenced then
            (let w = call ManifestFeed w in
             case manifestFeed s m of
               Inr l \<Rightarrow>
                 (let w = call (FeedAt (time_Now_Unix s)) w in
                  case At l (time_Now_Unix s) 0 of
                    Inl err \<Rightarrow> (w, NotFound (Str ''feed not found''))
                  | Inr (ch, cur) \<Rightarrow>
                      (case ch of
                         None \<Rightarrow> (w, NotFound (Str ''no update found''))
                       | Some c \<Rightarrow>
                           (case parseFeedUpdate s c of
                              Inl err \<Rightarrow> (w, InternalServerError (Str ''mapStructure feed update''))
                            | Inr (ref, ts) \<Rightarrow>
                                (let address = ref; feedDereferenced = True in
                                 case MarshalBinary cur of
                                   Inl err \<Rightarrow> (w, InternalServerError (Str ''marshal index''))
                                 | Inr curBytes \<Rightarrow>
                                     (let w = Header_Set w (SwarmFeedIndexHeader s)
                                                (EncodeToString curBytes);
                                          w = Header_Set w ''Access-Control-Expose-Headers''
                                                (SwarmFeedIndexHeader s)
                                      in serveReference_FETCH s r address pathVar
                                           feedDereferenced w)))))
             | Inl err \<Rightarrow> servePath s r m pathVar feedDereferenced w)
          else servePath s r m pathVar feedDereferenced w)"
  by pat_completeness auto
termination
  by (relation "measure (\<lambda>(s, r, address, pathVar, feedDereferenced, w).
                  if feedDereferenced then 0 else 1)") auto

definition serveReference ::
  "Service \<Rightarrow> request \<Rightarrow> address \<Rightarrow> string \<Rightarrow> state \<Rightarrow> state \<times> reply"
where
  "serveReference s r address pathVar w = serveReference_FETCH s r address pathVar False w"

text \<open>
  Modelled from the spec: the responder that \<^verbatim>\<open>s.mapStructure\<close> returns when mapping or
  validation fails; the code is in another file of package api. The spec has such a
  request answered as a bad request (400); the response has the handler's message and
  the reasons, in the form that \<^verbatim>\<open>fileUploadHandler\<close> itself uses for its second
  validation.
\<close>

definition mapStructure_response :: "(string \<times> string) list \<Rightarrow> string \<Rightarrow> reply" where
  "mapStructure_response reasons msg = BadRequest (StatusResponse msg 400 reasons)"

definition bzzDownloadHandler :: "Service \<Rightarrow> request \<Rightarrow> state \<Rightarrow> state \<times> reply" where
  "bzzDownloadHandler s r w =
     (case Vars r of
        Inl reasons \<Rightarrow> (w, mapStructure_response reasons ''invalid path params'')
      | Inr (Address, Path0) \<Rightarrow>
          let Path1 = (if strings_HasSuffix Path0 ''/''
                       then strings_TrimRight Path0 ''/'' @ ''/'' else Path0)
          in serveReference s r Address Path1 w)"

declare serveReference_FETCH.simps [simp del]

subsection \<open>Upload: \<^verbatim>\<open>fileUploadHandler\<close>\<close>

text \<open>
  The struct \<^verbatim>\<open>queries\<close> has one field, \<^verbatim>\<open>FileName\<close>, mapped from the query parameter
  \<^verbatim>\<open>name\<close> and tagged \<^verbatim>\<open>validate:"startsnotwith=/"\<close>: validation fails exactly when
  the value starts with a slash.
\<close>

definition validate_Struct :: "string \<Rightarrow> error option" where
  "validate_Struct FileName =
     (if strings_HasPrefix FileName ''/'' then Some (Errorf ''startsnotwith'') else None)"

text \<open>
  Modelled from the spec: \<^verbatim>\<open>s.mapStructure\<close> on the query, whose code is in another file
  of package api. It fills the struct and validates it, and on a failure returns the
  responder that the handler calls with its message. The spec has the name validated not
  to start with a path separator, as the tag of the struct says.
\<close>

definition mapStructure_queries :: "Service \<Rightarrow> request \<Rightarrow> (string \<Rightarrow> reply) + string" where
  "mapStructure_queries s r =
     (case validate_Struct (Query_name r) of
        Some err \<Rightarrow>
          Inl (mapStructure_response [(''name'', validationError s ''name'' (Query_name r) err)])
      | None \<Rightarrow> Inr (Query_name r))"

text \<open>
  The callback that the handler appends to \<open>storeSizeFn\<close> for a tag that the request
  did not create.
\<close>

definition storeSizeFn_tag :: "Service \<Rightarrow> bool \<Rightarrow> state \<Rightarrow> int \<Rightarrow> state \<times> error option" where
  "storeSizeFn_tag s encrypt w dataSize =
     (let estimatedTotalChunks = calculateNumberOfChunks s dataSize encrypt in
      if estimatedTotalChunks > 0 then
        (case tag_IncN s (calls w) estimatedTotalChunks of
           Some err \<Rightarrow> (call (TagIncN estimatedTotalChunks) w, Some (Wrapf ''increment tag'' err))
         | None \<Rightarrow> (call (TagIncN estimatedTotalChunks) w, None))
      else (w, None))"

text \<open>
  Modelled from the spec: \<^verbatim>\<open>m.Store(ctx, storeSizeFn...)\<close> of package manifest, whose code
  is not among the sources. The spec has the size callbacks "invoked by the manifest
  store as trie nodes are persisted": for every node, every callback is called with the
  size of the node's data, an error of a callback ends the store, then the node is saved;
  the result is the reference of the root. \<open>run_storeSizeFn\<close> is the loop over the
  callbacks, \<open>save_nodes\<close> the loop over the nodes.
\<close>

fun run_storeSizeFn ::
  "(state \<Rightarrow> int \<Rightarrow> state \<times> error option) list \<Rightarrow> state \<Rightarrow> int \<Rightarrow> state \<times> error option"
where
  "run_storeSizeFn [] w dataLen = (w, None)"
| "run_storeSizeFn (fn # fns) w dataLen =
     (case fn w dataLen of
        (w', Some err) \<Rightarrow> (w', Some (Wrapf ''manifest store size func'' err))
      | (w', None) \<Rightarrow> run_storeSizeFn fns w' dataLen)"

fun save_nodes ::
  "Service \<Rightarrow> (state \<Rightarrow> int \<Rightarrow> state \<times> error option) list \<Rightarrow> state \<Rightarrow> int list \<Rightarrow>
   state \<times> error option"
where
  "save_nodes s storeSizeFn w [] = (w, None)"
| "save_nodes s storeSizeFn w (dataLen # nodes) =
     (case run_storeSizeFn storeSizeFn w dataLen of
        (w', Some err) \<Rightarrow> (w', Some err)
      | (w', None) \<Rightarrow>
          (case loadsave_Save s (calls w') dataLen of
             Some err \<Rightarrow> (call (ManifestSave dataLen) w', Some err)
           | None \<Rightarrow> save_nodes s storeSizeFn (call (ManifestSave dataLen) w') nodes))"

definition manifest_Store ::
  "Service \<Rightarrow> (state \<Rightarrow> int \<Rightarrow> state \<times> error option) list \<Rightarrow> state \<Rightarrow>
   state \<times> (error + address)"
where
  "manifest_Store s storeSizeFn w =
     (let w1 = call ManifestStore w in
      case save_nodes s storeSizeFn w1 (manifest_nodes s (calls w1)) of
        (w2, Some err) \<Rightarrow> (w2, Inl (Wrapf ''manifest save error'' err))
      | (w2, None) \<Rightarrow> (w2, Inr (manifest_Reference s (calls w2))))"

text \<open>
  \<^verbatim>\<open>fileUploadHandler\<close> is one function; it is split here where one stage hands its
  local variables to the next. \<open>upload_finish\<close> is lines 240 to 261: the pin, the wait
  and the response.
\<close>

definition upload_finish ::
  "Service \<Rightarrow> request \<Rightarrow> (event list \<Rightarrow> error option) \<Rightarrow> nat \<Rightarrow> address \<Rightarrow> state \<Rightarrow>
   state \<times> reply"
where
  "upload_finish s r waitFn tag_Uid manifestReference w =
     (case (if requestPin r
            then (call (CreatePin manifestReference) w,
                  pinning_CreatePin s (calls w) manifestReference)
            else (w, None)) of
        (w, Some err) \<Rightarrow> (w, InternalServerError (Str ''create pin failed''))
      | (w, None) \<Rightarrow>
          (case waitFn (calls w) of
             Some err \<Rightarrow> (call Wait w, InternalServerError (Str ''sync chunks failed''))
           | None \<Rightarrow>
               let w = call Wait w;
                   w = Header_Set w ''ETag'' (Sprintf_q (address_String manifestReference));
                   w = Header_Set w (SwarmTagHeader s) (FormatNat tag_Uid);
                   w = Header_Set w ''Access-Control-Expose-Headers'' (SwarmTagHeader s)
               in (w, Created (bzzUploadResponse manifestReference))))"

text \<open>Lines 158 to 238: the manifest is created, filled, stored, and the split of a
  tag that this request created is marked done.\<close>

definition upload_manifest ::
  "Service \<Rightarrow> request \<Rightarrow> (event list \<Rightarrow> error option) \<Rightarrow> nat \<Rightarrow> bool \<Rightarrow> address \<Rightarrow> string \<Rightarrow>
   state \<Rightarrow> state \<times> reply"
where
  "upload_manifest s r waitFn tag_Uid created fr FileName w =
     (let encrypt = requestEncrypt r in
      case NewDefaultManifest s encrypt of
        Some err \<Rightarrow>
          if errors_Is err manifest_ErrInvalidManifestType
          then (w, BadRequest (Str ''create manifest failed''))
          else (w, InternalServerError nil)
      | None \<Rightarrow>
          let rootMetadata = [WebsiteIndexDocumentSuffixKey s \<mapsto> FileName];
              rootEntry = \<lparr>Reference = ZeroAddress s, Metadata = rootMetadata\<rparr>
          in
          (case manifest_Add s (calls w) RootPath rootEntry of
             Some err \<Rightarrow>
               (call (ManifestAdd RootPath rootEntry) w,
                InternalServerError (Str ''add metadata failed''))
           | None \<Rightarrow>
               let w = call (ManifestAdd RootPath rootEntry) w;
                   fileMtdt = [EntryMetadataContentTypeKey s \<mapsto> Header_Get r (contentTypeHeader s),
                               EntryMetadataFilenameKey s \<mapsto> FileName];
                   fileEntry = \<lparr>Reference = fr, Metadata = fileMtdt\<rparr>
               in
               (case manifest_Add s (calls w) FileName fileEntry of
                  Some err \<Rightarrow>
                    (call (ManifestAdd FileName fileEntry) w,
                     InternalServerError (Str ''add file failed''))
                | None \<Rightarrow>
                    let w = call (ManifestAdd FileName fileEntry) w;
                        storeSizeFn = (if \<not> created then [storeSizeFn_tag s encrypt] else [])
                    in
                    (case manifest_Store s storeSizeFn w of
                       (w, Inl err) \<Rightarrow>
                         if errors_Is err postage_ErrBucketFull
                         then (w, PaymentRequired (Str ''batch is overissued''))
                         else (w, InternalServerError (Str ''manifest store failed''))
                     | (w, Inr manifestReference) \<Rightarrow>
                         if created then
                           (case tag_DoneSplit s (calls w) manifestReference of
                              Some err \<Rightarrow>
                                (call (TagDoneSplit manifestReference) w,
                                 InternalServerError (Str ''done split failed''))
                            | None \<Rightarrow>
                                upload_finish s r waitFn tag_Uid manifestReference
                                  (call (TagDoneSplit manifestReference) w))
                         else upload_finish s r waitFn tag_Uid manifestReference w))))"

text \<open>Lines 117 to 156: the pipeline stores the body, and an empty file name becomes
  the hex form of the reference, validated again.\<close>

definition upload_store ::
  "Service \<Rightarrow> request \<Rightarrow> (event list \<Rightarrow> error option) \<Rightarrow> nat \<Rightarrow> bool \<Rightarrow> string \<Rightarrow> state \<Rightarrow>
   state \<times> reply"
where
  "upload_store s r waitFn tag_Uid created FileName w =
     (case pipeline s (calls w) of
        Inl err \<Rightarrow>
          if errors_Is err postage_ErrBucketFull
          then (call PipelineStore w, PaymentRequired (Str ''batch is overissued''))
          else (call PipelineStore w, InternalServerError (Err (errFileStore s)))
      | Inr fr \<Rightarrow>
          let w = call PipelineStore w in
          if FileName = [] then
            (let FileName = address_String fr in
             case validate_Struct FileName of
               Some err \<Rightarrow>
                 (w, BadRequest (StatusResponse ''invalid body params'' 400
                       [(''file hash'', validationError s ''file hash'' FileName err)]))
             | None \<Rightarrow> upload_manifest s r waitFn tag_Uid created fr FileName w)
          else upload_manifest s r waitFn tag_Uid created fr FileName w)"

text \<open>Lines 83 to 115: the query, the tag, and the estimate added to a tag that came
  with the request.\<close>

definition fileUploadHandler ::
  "Service \<Rightarrow> request \<Rightarrow> (event list \<Rightarrow> error option) \<Rightarrow> state \<Rightarrow> state \<times> reply"
where
  "fileUploadHandler s r waitFn w =
     (case mapStructure_queries s r of
        Inl response \<Rightarrow> (w, response ''invalid query params'')
      | Inr FileName \<Rightarrow>
          (case getOrCreateTag s (Header_Get r (SwarmTagHeader s)) of
             Inl err \<Rightarrow>
               if errors_Is err tags_ErrNotFound then (w, NotFound (Str ''tag not found''))
               else (w, InternalServerError (Str ''cannot get or create tag''))
           | Inr (tag_Uid, created) \<Rightarrow>
               if \<not> created then
                 (let estimatedTotalChunks = requestCalculateNumberOfChunks r in
                  if estimatedTotalChunks > 0 then
                    (case tag_IncN s (calls w) estimatedTotalChunks of
                       Some err \<Rightarrow>
                         (call (TagIncN estimatedTotalChunks) w,
                          InternalServerError (Str ''increment tag failed''))
                     | None \<Rightarrow>
                         upload_store s r waitFn tag_Uid created FileName
                           (call (TagIncN estimatedTotalChunks) w))
                  else upload_store s r waitFn tag_Uid created FileName w)
               else upload_store s r waitFn tag_Uid created FileName w))"

subsection \<open>The manifest that the calls build\<close>


text \<open>The calls of one kind in a log.\<close>

fun isFeedAt :: "event \<Rightarrow> bool" where
  "isFeedAt (FeedAt t) = True"
| "isFeedAt ev = False"

fun isTagIncN :: "event \<Rightarrow> bool" where
  "isTagIncN (TagIncN n) = True"
| "isTagIncN ev = False"

fun isTagDoneSplit :: "event \<Rightarrow> bool" where
  "isTagDoneSplit (TagDoneSplit ref) = True"
| "isTagDoneSplit ev = False"

subsection \<open>Words of the specification\<close>

text \<open>
  The specification speaks of a value that is "configured" at the root entry and of a
  path that "exists as a directory prefix". \<open>root_metadata\<close> is the value of a key
  in the metadata of the entry at the root path, when there is one; \<open>is_directory\<close>
  holds when the manifest answers that it has entries under the path followed by a slash.
\<close>

definition root_metadata :: "manifest \<Rightarrow> string \<Rightarrow> string option" where
  "root_metadata m key = (case Lookup m RootPath of Inl err \<Rightarrow> None | Inr root \<Rightarrow> Metadata root key)"

definition is_directory :: "manifest \<Rightarrow> string \<Rightarrow> bool" where
  "is_directory m path = (HasPrefix m (path @ ''/'') = Inr True)"

subsection \<open>The wait and the response\<close>

text \<open>
  What a run of the upload handler shows about the wait: \<open>new\<close> are the calls of the
  run, made after the calls \<open>base\<close>, and \<open>rep\<close> is the response. Either the run did not
  wait, and the response is neither the success nor the failure of the wait; or the
  wait is the last call, and the response is the success when \<^verbatim>\<open>waitFn\<close> returned nil
  and the failure \<^verbatim>\<open>sync chunks failed\<close> when it returned an error.
\<close>

definition wait_gate :: "(event list \<Rightarrow> error option) \<Rightarrow> event list \<Rightarrow> event list \<Rightarrow> reply \<Rightarrow> bool" where
  "wait_gate waitFn base new rep =
     ((Wait \<notin> set new \<and> (\<forall>p. rep \<noteq> Created p)
         \<and> rep \<noteq> InternalServerError (Str ''sync chunks failed''))
      \<or> (\<exists>pre. new = pre @ [Wait] \<and> Wait \<notin> set pre \<and>
            (case waitFn (base @ pre) of
               None \<Rightarrow> (\<exists>manifestReference. rep = Created (bzzUploadResponse manifestReference))
             | Some err \<Rightarrow> rep = InternalServerError (Str ''sync chunks failed''))))"

subsection \<open>Example data\<close>

text \<open>
  A manifest given by its list of entries: a lookup of a missing path answers
  \<^verbatim>\<open>manifest.ErrNotFound\<close>, and a prefix exists when a path of the list starts with it.
\<close>

definition manifest_of :: "(string \<times> entry) list \<Rightarrow> manifest" where
  "manifest_of es =
     \<lparr>Lookup = (\<lambda>p. case map_of es p of Some e \<Rightarrow> Inr e | None \<Rightarrow> Inl manifest_ErrNotFound),
      HasPrefix = (\<lambda>p. Inr (list_ex (\<lambda>(k, e). strings_HasPrefix k p) es))\<rparr>"

text \<open>A web site with an index document, an error document and a directory.\<close>

definition example_site :: "(string \<times> entry) list" where
  "example_site =
     [(''/'', \<lparr>Reference = [],
              Metadata = [''website-index-document'' \<mapsto> ''index.html'',
                          ''website-error-document'' \<mapsto> ''404.html'']\<rparr>),
      (''index.html'', \<lparr>Reference = [0x11],
              Metadata = [''Filename'' \<mapsto> ''index.html'', ''Content-Type'' \<mapsto> ''text/html'']\<rparr>),
      (''404.html'', \<lparr>Reference = [0x12], Metadata = [''Filename'' \<mapsto> ''404.html'']\<rparr>),
      (''img/logo.png'', \<lparr>Reference = [0x13], Metadata = Map.empty\<rparr>),
      (''blog/index.html'', \<lparr>Reference = [0x14], Metadata = Map.empty\<rparr>)]"

text \<open>A feed manifest: the root entry carries owner and topic.\<close>

definition example_feed :: "(string \<times> entry) list" where
  "example_feed =
     [(''/'', \<lparr>Reference = [],
              Metadata = [''swarm-feed-owner'' \<mapsto> ''0a0b'',
                          ''swarm-feed-topic'' \<mapsto> ''0c''] \<rparr>)]"

text \<open>The target of the feed's update: a site whose root entry is feed-shaped too.\<close>

definition example_target :: "(string \<times> entry) list" where
  "example_target =
     [(''/'', \<lparr>Reference = [],
              Metadata = [''swarm-feed-owner'' \<mapsto> ''0d'',
                          ''swarm-feed-topic'' \<mapsto> ''0e'',
                          ''website-index-document'' \<mapsto> ''index.html'']\<rparr>),
      (''index.html'', \<lparr>Reference = [0x21], Metadata = Map.empty\<rparr>)]"

text \<open>A feed lookup that finds the update \<open>ch\<close> with the index \<open>cur\<close>.\<close>

definition example_lookup :: "chunk option \<Rightarrow> index \<Rightarrow> feeds_Lookup" where
  "example_lookup ch cur = \<lparr>At = (\<lambda>at after. Inr (ch, cur))\<rparr>"

definition example_index :: index where
  "example_index = \<lparr>MarshalBinary = Inr [0, 0, 0, 0, 0, 0, 0, 5]\<rparr>"

text \<open>
  A service: the site is stored at address \<open>01\<close>, the feed at \<open>fe\<close>, the feed's update
  points to \<open>02\<close>, where the target is stored. A request without a tag header creates
  tag 1, another one finds tag 7. The pipeline answers the reference \<open>abcd\<close>, and a
  manifest is saved as two nodes under the reference \<open>99\<close>.
\<close>

definition example_Service :: Service where
  "example_Service =
     \<lparr>SwarmFeedIndexHeader = ''Swarm-Feed-Index'',
      SwarmTagHeader = ''Swarm-Tag'',
      contentTypeHeader = ''Content-Type'',
      WebsiteIndexDocumentSuffixKey = ''website-index-document'',
      WebsiteErrorDocumentPathKey = ''website-error-document'',
      EntryMetadataContentTypeKey = ''Content-Type'',
      EntryMetadataFilenameKey = ''Filename'',
      feedMetadataEntryOwner = ''swarm-feed-owner'',
      feedMetadataEntryTopic = ''swarm-feed-topic'',
      feedMetadataEntryType = ''swarm-feed-type'',
      errFileStore = ''could not store file'',
      ZeroAddress = [],
      validationError = (\<lambda>entry val cause. entry),
      NewDefaultManifestReference =
        (\<lambda>a. if a = [0x01] then Inr (manifest_of example_site)
             else if a = [0xfe] then Inr (manifest_of example_feed)
             else if a = [0x02] then Inr (manifest_of example_target)
             else Inl storage_ErrNotFound),
      Type_FromString =
        (\<lambda>str. if str = ''sequence'' then Inr 0 else if str = ''epoch'' then Inr 1
               else Inl (Errorf ''unknown feed type'')),
      feedFactory_NewLookup = (\<lambda>t f. Inr (example_lookup (Some [0x02]) example_index)),
      parseFeedUpdate = (\<lambda>ch. if ch = [] then Inl (Errorf ''empty update'') else Inr (ch, 0)),
      time_Now_Unix = 1700000000,
      joiner_New = (\<lambda>a. Inr 42),
      lookaheadBufferSize = (\<lambda>l. 4096),
      getOrCreateTag = (\<lambda>h. if h = [] then Inr (1, True) else Inr (7, False)),
      tag_IncN = (\<lambda>log n. None),
      tag_DoneSplit = (\<lambda>log ref. None),
      pipeline = (\<lambda>log. Inr [0xab, 0xcd]),
      calculateNumberOfChunks = (\<lambda>dataSize encrypt. if dataSize \<le> 4096 then 1 else 3),
      NewDefaultManifest = (\<lambda>encrypt. None),
      manifest_Add = (\<lambda>log path e. None),
      manifest_nodes = (\<lambda>log. [100, 5000]),
      loadsave_Save = (\<lambda>log dataLen. None),
      manifest_Reference = (\<lambda>log. [0x99]),
      pinning_CreatePin = (\<lambda>log ref. None)\<rparr>"

definition example_request :: request where
  "example_request =
     \<lparr>URL = \<lparr>Path = ''/bzz/01/img'', RawQuery = []\<rparr>,
      Query_name = [],
      Header_Get = (\<lambda>key. if key = ''Content-Type'' then ''text/plain'' else []),
      requestCalculateNumberOfChunks = 2,
      requestEncrypt = False,
      requestPin = False,
      Vars = Inr ([0x01], ''img//'')\<rparr>"

text \<open>The same request with the tag header \<^verbatim>\<open>7\<close>.\<close>

definition example_request_tagged :: request where
  "example_request_tagged =
     example_request\<lparr>Header_Get := (\<lambda>key. if key = ''Content-Type'' then ''text/plain''
                                          else if key = ''Swarm-Tag'' then ''7'' else [])\<rparr>"

definition example_w :: state where
  "example_w = \<lparr>Header = Map.empty, calls = []\<rparr>"

definition example_wait :: "event list \<Rightarrow> error option" where
  "example_wait log = None"

text \<open>Variants of the service: one manifest stored at every address, and feed lookups
  that fail, find no update, or find an update that does not parse.\<close>

definition example_stored :: "(string \<times> entry) list \<Rightarrow> Service" where
  "example_stored es = example_Service\<lparr>NewDefaultManifestReference := (\<lambda>a. Inr (manifest_of es))\<rparr>"

definition example_lookup_fails :: Service where
  "example_lookup_fails =
     example_Service\<lparr>feedFactory_NewLookup := (\<lambda>t f. Inr \<lparr>At = (\<lambda>at after. Inl (OtherError 1))\<rparr>)\<rparr>"

definition example_no_update :: Service where
  "example_no_update =
     example_Service\<lparr>feedFactory_NewLookup := (\<lambda>t f. Inr (example_lookup None example_index))\<rparr>"

definition example_malformed :: Service where
  "example_malformed =
     example_Service\<lparr>feedFactory_NewLookup := (\<lambda>t f. Inr (example_lookup (Some []) example_index))\<rparr>"

text \<open>Root entries whose feed metadata cannot be used: an owner that is not hex, and a
  feed type that does not exist.\<close>

definition example_bad_owner :: "(string \<times> entry) list" where
  "example_bad_owner =
     [(''/'', \<lparr>Reference = [],
              Metadata = [''swarm-feed-owner'' \<mapsto> ''0g'', ''swarm-feed-topic'' \<mapsto> ''0c'']\<rparr>)]"

definition example_bad_type :: "(string \<times> entry) list" where
  "example_bad_type =
     [(''/'', \<lparr>Reference = [],
              Metadata = [''swarm-feed-owner'' \<mapsto> ''0a'', ''swarm-feed-topic'' \<mapsto> ''0c'',
                          ''swarm-feed-type'' \<mapsto> ''weekly'']\<rparr>)]"

text \<open>
  A wait that fails.
\<close>

definition example_wait_fails :: "event list \<Rightarrow> error option" where
  "example_wait_fails log = Some (OtherError 2)"

lemmas example_defs =
  example_Service_def example_stored_def example_lookup_fails_def example_no_update_def
  example_malformed_def example_request_def example_request_tagged_def example_w_def
  example_wait_def
  example_wait_fails_def
  example_site_def example_feed_def example_target_def example_lookup_def example_index_def
  example_bad_owner_def example_bad_type_def manifest_of_def

text \<open>The definitions that a run on example data unfolds.\<close>

lemmas download_defs =
  serveReference_def servePath_def checkDirectory_def checkIndexSuffix_def
  checkErrorDocument_def manifestMetadataLoad_def serveManifestEntry_def downloadHandler_def
  manifestFeed_def map_index_def RootPath_def strings_HasPrefix_def strings_HasSuffix_def
  path_Join_def path_Clean_def Header_Set_def call_def fromHexChar_def Let_def

section \<open>Properties\<close>

subsection \<open>Trailing slashes of the requested path\<close>

lemma HasSuffix_slash: "strings_HasSuffix p ''/'' \<longleftrightarrow> p \<noteq> [] \<and> last p = CHR ''/''"
proof (cases p rule: rev_cases)
  case Nil
  then show ?thesis by (simp add: strings_HasSuffix_def)
next
  case (snoc ys y)
  then show ?thesis by (auto simp add: strings_HasSuffix_def)
qed

lemma TrimRight_slashes:
  assumes "p0 = [] \<or> last p0 \<noteq> CHR ''/''"
  shows "strings_TrimRight (p0 @ replicate n (CHR ''/'')) ''/'' = p0"
proof -
  have "dropWhile (\<lambda>c. c \<in> set ''/'') (rev p0) = rev p0"
    using assms by (cases p0 rule: rev_cases) auto
  then show ?thesis
    by (simp add: strings_TrimRight_def dropWhile_append3 dropWhile_append)
qed

text \<open>Every path is a path without a trailing slash followed by some slashes.\<close>

lemma path_trailing_slashes:
  "\<exists>p0 n. p = p0 @ replicate n (CHR ''/'') \<and> (p0 = [] \<or> last p0 \<noteq> CHR ''/'')"
proof (induction p rule: rev_induct)
  case Nil
  then show ?case by simp
next
  case (snoc x xs)
  show ?case
  proof (cases "x = CHR ''/''")
    case True
    from snoc obtain p0 n where
      p0: "xs = p0 @ replicate n (CHR ''/'')" "p0 = [] \<or> last p0 \<noteq> CHR ''/''"
      by blast
    then have "xs @ [x] = p0 @ replicate (Suc n) (CHR ''/'')"
      using True by (simp add: replicate_append_same)
    then show ?thesis using p0(2) by blast
  next
    case False
    then have "xs @ [x] = (xs @ [x]) @ replicate 0 (CHR ''/'')"
      and "last (xs @ [x]) \<noteq> CHR ''/''"
      by auto
    then show ?thesis by blast
  qed
qed

text \<open>
  C10. When the route variables are mapped, a path that is \<open>p0\<close> followed by one or more
  slashes, \<open>p0\<close> itself not ending in a slash, reaches \<^verbatim>\<open>serveReference\<close> as \<open>p0\<close> with
  exactly one slash; a path that does not end in a slash reaches it unchanged.
\<close>

theorem bzzDownloadHandler_trailing_slashes:
  assumes "Vars r = Inr (a, p)"
  shows "(\<forall>p0 n. p = p0 @ replicate (Suc n) (CHR ''/'') \<and> (p0 = [] \<or> last p0 \<noteq> CHR ''/'')
            \<longrightarrow> bzzDownloadHandler s r w = serveReference s r a (p0 @ ''/'') w)
       \<and> (p = [] \<or> last p \<noteq> CHR ''/''
            \<longrightarrow> bzzDownloadHandler s r w = serveReference s r a p w)"
proof (intro conjI allI impI)
  fix p0 n
  assume h: "p = p0 @ replicate (Suc n) (CHR ''/'') \<and> (p0 = [] \<or> last p0 \<noteq> CHR ''/'')"
  then have "strings_HasSuffix p ''/''"
    by (simp add: HasSuffix_slash)
  moreover have "strings_TrimRight p ''/'' = p0"
    using h TrimRight_slashes [of p0 "Suc n"] by simp
  ultimately show "bzzDownloadHandler s r w = serveReference s r a (p0 @ ''/'') w"
    using assms by (simp add: bzzDownloadHandler_def)
next
  assume "p = [] \<or> last p \<noteq> CHR ''/''"
  then have "\<not> strings_HasSuffix p ''/''"
    by (auto simp add: HasSuffix_slash)
  then show "bzzDownloadHandler s r w = serveReference s r a p w"
    using assms by (simp add: bzzDownloadHandler_def)
qed

text \<open>The path \<^verbatim>\<open>img//\<close> is served as \<^verbatim>\<open>img/\<close>, the path \<^verbatim>\<open>img\<close> as it is.\<close>

theorem bzzDownloadHandler_trailing_slashes_witness:
  "Vars example_request = Inr ([0x01], ''img//'')
   \<and> bzzDownloadHandler example_Service example_request example_w
       = serveReference example_Service example_request [0x01] ''img/'' example_w
   \<and> Vars (example_request\<lparr>Vars := Inr ([0x01], ''img'')\<rparr>) = Inr ([0x01], ''img'')
   \<and> bzzDownloadHandler example_Service (example_request\<lparr>Vars := Inr ([0x01], ''img'')\<rparr>) example_w
       = serveReference example_Service (example_request\<lparr>Vars := Inr ([0x01], ''img'')\<rparr>)
           [0x01] ''img'' example_w"
proof -
  have v1: "Vars example_request = Inr ([0x01], ''img//'')"
    by (simp add: example_request_def)
  have v2: "Vars (example_request\<lparr>Vars := Inr ([0x01], ''img'')\<rparr>) = Inr ([0x01], ''img'')"
    by simp
  have d: "''img//'' = ''img'' @ replicate (Suc (Suc 0)) (CHR ''/'')
           \<and> (''img'' = [] \<or> last ''img'' \<noteq> CHR ''/'')"
    by simp
  have n: "''img'' = [] \<or> last ''img'' \<noteq> CHR ''/''"
    by simp
  from bzzDownloadHandler_trailing_slashes [OF v1, of example_Service example_w] d
  have "bzzDownloadHandler example_Service example_request example_w
          = serveReference example_Service example_request [0x01] (''img'' @ ''/'') example_w"
    by blast
  moreover from bzzDownloadHandler_trailing_slashes [OF v2, of example_Service example_w] n
  have "bzzDownloadHandler example_Service (example_request\<lparr>Vars := Inr ([0x01], ''img'')\<rparr>) example_w
          = serveReference example_Service (example_request\<lparr>Vars := Inr ([0x01], ''img'')\<rparr>)
              [0x01] ''img'' example_w"
    by blast
  ultimately show ?thesis using v1 v2 by simp
qed

subsection \<open>The log and the headers along a download\<close>

lemma calls_Header_Set [simp]: "calls (Header_Set w k v) = calls w"
  by (simp add: Header_Set_def)

lemma Header_call [simp]: "Header (call ev w) = Header w"
  by (simp add: call_def)

lemma calls_call [simp]: "calls (call ev w) = calls w @ [ev]"
  by (simp add: call_def)

lemma calls_set_additionalHeaders [simp]: "calls (set_additionalHeaders w hs) = calls w"
  by (induction w hs rule: set_additionalHeaders.induct) simp_all

lemma calls_downloadHandler [simp]:
  "calls (fst (downloadHandler s w reference hs etag)) = calls w"
  by (simp add: downloadHandler_def Let_def split: sum.splits)

lemma calls_serveManifestEntry [simp]:
  "calls (fst (serveManifestEntry s w e etag)) = calls w"
  by (simp add: serveManifestEntry_def Let_def)

lemma calls_checkDirectory: "checkDirectory r m p w = Some done \<Longrightarrow> calls (fst done) = calls w"
  by (auto simp add: checkDirectory_def Let_def split: if_splits sum.splits)

lemma calls_checkIndexSuffix:
  "checkIndexSuffix s m p fd w = Some done \<Longrightarrow> calls (fst done) = calls w"
  by (auto simp add: checkIndexSuffix_def Let_def split: if_splits sum.splits prod.splits)

lemma calls_checkErrorDocument:
  "checkErrorDocument s m p fd w = Some done \<Longrightarrow> calls (fst done) = calls w"
  by (auto simp add: checkErrorDocument_def Let_def split: if_splits sum.splits prod.splits)

lemma calls_servePath [simp]: "calls (fst (servePath s r m p fd w)) = calls w"
  by (auto simp add: servePath_def Let_def calls_checkDirectory calls_checkIndexSuffix
      calls_checkErrorDocument split: sum.splits prod.splits option.splits)

lemma FETCH_True:
  "serveReference_FETCH s r a p True w =
     (case NewDefaultManifestReference s a of
        Inl err \<Rightarrow> (call (ManifestLoad a) w, NotFound nil)
      | Inr m \<Rightarrow> servePath s r m p True (call (ManifestLoad a) w))"
  by (subst serveReference_FETCH.simps) (simp add: Let_def split: sum.splits)

lemma serveReference_no_feed:
  assumes "NewDefaultManifestReference s a = Inr m" and "manifestFeed s m = Inl err"
  shows "serveReference s r a p w
           = servePath s r m p False (call ManifestFeed (call (ManifestLoad a) w))"
  unfolding serveReference_def
  by (subst serveReference_FETCH.simps) (simp add: assms Let_def)

lemma serveReference_feed:
  assumes "NewDefaultManifestReference s a = Inr m" and "manifestFeed s m = Inr l"
    and "At l (time_Now_Unix s) 0 = Inr (Some c, cur)"
    and "parseFeedUpdate s c = Inr (ref, ts)"
    and "MarshalBinary cur = Inr curBytes"
  shows "serveReference s r a p w =
     (let w1 = call (FeedAt (time_Now_Unix s)) (call ManifestFeed (call (ManifestLoad a) w));
          w2 = Header_Set (Header_Set w1 (SwarmFeedIndexHeader s) (EncodeToString curBytes))
                 ''Access-Control-Expose-Headers'' (SwarmFeedIndexHeader s);
          w3 = call (ManifestLoad ref) w2
      in case NewDefaultManifestReference s ref of
           Inl err \<Rightarrow> (w3, NotFound nil)
         | Inr m2 \<Rightarrow> servePath s r m2 p True w3)"
  unfolding serveReference_def
  by (subst serveReference_FETCH.simps) (simp add: assms Let_def FETCH_True)

lemma serveReference_calls:
  "\<exists>new. calls (fst (serveReference s r a p w)) = calls w @ new
        \<and> length (filter isFeedAt new) \<le> 1 \<and> count_list new ManifestFeed \<le> 1"
  unfolding serveReference_def
  by (subst serveReference_FETCH.simps)
     (auto simp add: Let_def FETCH_True split: sum.splits option.splits prod.splits)

lemma manifestFeed_fails:
  assumes "(\<exists>err. Lookup m ''/'' = Inl err)
       \<or> (\<exists>e. Lookup m ''/'' = Inr e \<and>
            (let owner = map_index (Metadata e) (feedMetadataEntryOwner s);
                 topic = map_index (Metadata e) (feedMetadataEntryTopic s);
                 ty = map_index (Metadata e) (feedMetadataEntryType s)
             in (owner \<noteq> [] \<and> (\<exists>err. DecodeString owner = Inl err))
              \<or> (topic \<noteq> [] \<and> (\<exists>err. DecodeString topic = Inl err))
              \<or> (ty \<noteq> [] \<and> (\<exists>err. Type_FromString s ty = Inl err))
              \<or> owner = [] \<or> topic = []))"
  shows "\<exists>err. manifestFeed s m = Inl err"
  using assms
  by (auto simp add: manifestFeed_def Let_def split: sum.splits)

subsection \<open>Feed detection that fails\<close>

text \<open>
  C9. When the manifest at the address is loaded and feed detection fails, because the
  root entry \<^verbatim>\<open>/\<close> cannot be looked up, or the owner or the topic is present and not
  hex, or the feed type is present and not recognised, or the owner or the topic is
  missing or empty, or for any other reason, then \<^verbatim>\<open>manifestFeed\<close> returns an error
  and the request is answered by the path resolution on that same manifest, with
  \<open>feedDereferenced\<close> false: the error of the detection does not reach the client.
\<close>

theorem feed_detection_failure_is_swallowed:
  assumes "NewDefaultManifestReference s address = Inr m"
    and "(\<exists>err. Lookup m ''/'' = Inl err)
       \<or> (\<exists>e. Lookup m ''/'' = Inr e \<and>
            (let owner = map_index (Metadata e) (feedMetadataEntryOwner s);
                 topic = map_index (Metadata e) (feedMetadataEntryTopic s);
                 ty = map_index (Metadata e) (feedMetadataEntryType s)
             in (owner \<noteq> [] \<and> (\<exists>err. DecodeString owner = Inl err))
              \<or> (topic \<noteq> [] \<and> (\<exists>err. DecodeString topic = Inl err))
              \<or> (ty \<noteq> [] \<and> (\<exists>err. Type_FromString s ty = Inl err))
              \<or> owner = [] \<or> topic = []))
       \<or> (\<exists>err. manifestFeed s m = Inl err)"
  shows "(\<exists>err. manifestFeed s m = Inl err)
       \<and> serveReference s r address pathVar w
           = servePath s r m pathVar False (call ManifestFeed (call (ManifestLoad address) w))"
proof -
  from assms(2) obtain err where "manifestFeed s m = Inl err"
    using manifestFeed_fails [of m s] by blast
  then show ?thesis
    using serveReference_no_feed [OF assms(1)] by blast
qed

text \<open>
  The site has no feed metadata, an empty manifest has no root entry, one root entry has
  an owner that is not hex, and one a feed type that does not exist: all four are
  served as plain manifests.
\<close>

theorem feed_detection_failure_is_swallowed_witness:
  "snd (serveReference example_Service example_request [0x01] ''nope'' example_w)
     = ServeContent [0x12] 42 4096
   \<and> snd (serveReference (example_stored []) example_request [0x01] ''nope'' example_w)
     = NotFound (Str ''path address not found'')
   \<and> snd (serveReference (example_stored example_bad_owner) example_request [0x01] ''nope'' example_w)
     = NotFound (Str ''path address not found'')
   \<and> snd (serveReference (example_stored example_bad_type) example_request [0x01] ''nope'' example_w)
     = NotFound (Str ''path address not found'')"
proof -
  let ?hyp = "\<lambda>s m. (\<exists>err. Lookup m ''/'' = Inl err)
       \<or> (\<exists>e. Lookup m ''/'' = Inr e \<and>
            (let owner = map_index (Metadata e) (feedMetadataEntryOwner s);
                 topic = map_index (Metadata e) (feedMetadataEntryTopic s);
                 ty = map_index (Metadata e) (feedMetadataEntryType s)
             in (owner \<noteq> [] \<and> (\<exists>err. DecodeString owner = Inl err))
              \<or> (topic \<noteq> [] \<and> (\<exists>err. DecodeString topic = Inl err))
              \<or> (ty \<noteq> [] \<and> (\<exists>err. Type_FromString s ty = Inl err))
              \<or> owner = [] \<or> topic = []))
       \<or> (\<exists>err. manifestFeed s m = Inl err)"
  have l1: "NewDefaultManifestReference example_Service [0x01] = Inr (manifest_of example_site)"
    by (simp add: example_defs)
  have h1: "?hyp example_Service (manifest_of example_site)"
    by (simp add: example_defs map_index_def)
  have l2: "NewDefaultManifestReference (example_stored []) [0x01] = Inr (manifest_of [])"
    by (simp add: example_defs)
  have h2: "?hyp (example_stored []) (manifest_of [])"
    by (simp add: example_defs)
  have l3: "NewDefaultManifestReference (example_stored example_bad_owner) [0x01]
              = Inr (manifest_of example_bad_owner)"
    by (simp add: example_stored_def)
  have h3: "?hyp (example_stored example_bad_owner) (manifest_of example_bad_owner)"
    by (simp add: example_defs map_index_def fromHexChar_def)
  have l4: "NewDefaultManifestReference (example_stored example_bad_type) [0x01]
              = Inr (manifest_of example_bad_type)"
    by (simp add: example_stored_def)
  have h4: "?hyp (example_stored example_bad_type) (manifest_of example_bad_type)"
    by (simp add: example_defs map_index_def fromHexChar_def)
  note t1 = feed_detection_failure_is_swallowed [OF l1 h1, of example_request "''nope''" example_w]
    and t2 = feed_detection_failure_is_swallowed [OF l2 h2, of example_request "''nope''" example_w]
    and t3 = feed_detection_failure_is_swallowed [OF l3 h3, of example_request "''nope''" example_w]
    and t4 = feed_detection_failure_is_swallowed [OF l4 h4, of example_request "''nope''" example_w]
  have "snd (serveReference example_Service example_request [0x01] ''nope'' example_w)
     = ServeContent [0x12] 42 4096"
    using t1 by (simp add: example_defs download_defs)
  moreover have "snd (serveReference (example_stored []) example_request [0x01] ''nope'' example_w)
     = NotFound (Str ''path address not found'')"
    using t2 by (simp add: example_defs download_defs)
  moreover have "snd (serveReference (example_stored example_bad_owner) example_request [0x01] ''nope'' example_w)
     = NotFound (Str ''path address not found'')"
    using t3 by (simp add: example_defs download_defs)
  moreover have "snd (serveReference (example_stored example_bad_type) example_request [0x01] ''nope'' example_w)
     = NotFound (Str ''path address not found'')"
    using t4 by (simp add: example_defs download_defs)
  ultimately show ?thesis by blast
qed

subsection \<open>One feed dereference per request\<close>

text \<open>
  C1. In every run of \<^verbatim>\<open>serveReference\<close> the calls added to the log contain at most one
  feed lookup (\<^verbatim>\<open>l.At\<close>) and at most one feed detection (\<^verbatim>\<open>s.manifestFeed\<close>). When the
  manifest at the address is a feed whose update parses to \<open>ref\<close>, the request is
  answered by loading the manifest at \<open>ref\<close> and resolving the path on it with
  \<open>feedDereferenced\<close> true, whatever the metadata of its root entry: a failure to load
  it is a not-found response, and no detection runs on it.
\<close>

theorem feed_dereferenced_at_most_once:
  "(\<exists>new. calls (fst (serveReference s r address pathVar w)) = calls w @ new
        \<and> length (filter isFeedAt new) \<le> 1 \<and> count_list new ManifestFeed \<le> 1)
   \<and> (\<forall>m l c cur ref ts curBytes.
        NewDefaultManifestReference s address = Inr m \<and> manifestFeed s m = Inr l
        \<and> At l (time_Now_Unix s) 0 = Inr (Some c, cur) \<and> parseFeedUpdate s c = Inr (ref, ts)
        \<and> MarshalBinary cur = Inr curBytes
        \<longrightarrow> serveReference s r address pathVar w =
            (let w1 = call (FeedAt (time_Now_Unix s))
                        (call ManifestFeed (call (ManifestLoad address) w));
                 w2 = Header_Set (Header_Set w1 (SwarmFeedIndexHeader s) (EncodeToString curBytes))
                        ''Access-Control-Expose-Headers'' (SwarmFeedIndexHeader s);
                 w3 = call (ManifestLoad ref) w2
             in case NewDefaultManifestReference s ref of
                  Inl err \<Rightarrow> (w3, NotFound nil)
                | Inr m2 \<Rightarrow> servePath s r m2 pathVar True w3))"
  using serveReference_calls [of s r address pathVar w] serveReference_feed [of s address _ _ _ _ _ _ _ r pathVar w]
  by blast

text \<open>
  The feed at \<open>fe\<close> points to the manifest at \<open>02\<close>, whose root entry is feed-shaped
  (\<^verbatim>\<open>manifestFeed\<close> would accept it); the log shows one detection and one lookup, and
  the index document of the target is served.
\<close>

theorem feed_dereferenced_at_most_once_witness:
  "calls (fst (serveReference example_Service example_request [0xfe] [] example_w))
     = [ManifestLoad [0xfe], ManifestFeed, FeedAt 1700000000, ManifestLoad [0x02]]
   \<and> (\<exists>l. manifestFeed example_Service (manifest_of example_target) = Inr l)
   \<and> snd (serveReference example_Service example_request [0xfe] [] example_w)
     = ServeContent [0x21] 42 4096"
proof -
  have h: "NewDefaultManifestReference example_Service [0xfe] = Inr (manifest_of example_feed)
        \<and> manifestFeed example_Service (manifest_of example_feed)
            = Inr (example_lookup (Some [0x02]) example_index)
        \<and> At (example_lookup (Some [0x02]) example_index) (time_Now_Unix example_Service) 0
            = Inr (Some [0x02], example_index)
        \<and> parseFeedUpdate example_Service [0x02] = Inr ([0x02], 0)
        \<and> MarshalBinary example_index = Inr [0, 0, 0, 0, 0, 0, 0, 5]"
    by (simp add: example_defs manifestFeed_def map_index_def fromHexChar_def)
  have t: "manifestFeed example_Service (manifest_of example_target)
             = Inr (example_lookup (Some [0x02]) example_index)"
    by (simp add: example_defs manifestFeed_def map_index_def fromHexChar_def)
  from feed_dereferenced_at_most_once [of example_Service example_request "[0xfe]" "[]" example_w] h
  have "serveReference example_Service example_request [0xfe] [] example_w =
            (let w1 = call (FeedAt (time_Now_Unix example_Service))
                        (call ManifestFeed (call (ManifestLoad [0xfe]) example_w));
                 w2 = Header_Set (Header_Set w1 (SwarmFeedIndexHeader example_Service) (EncodeToString [0, 0, 0, 0, 0, 0, 0, 5]))
                        ''Access-Control-Expose-Headers'' (SwarmFeedIndexHeader example_Service);
                 w3 = call (ManifestLoad [0x02]) w2
             in case NewDefaultManifestReference example_Service [0x02] of
                  Inl err \<Rightarrow> (w3, NotFound nil)
                | Inr m2 \<Rightarrow> servePath example_Service example_request m2 [] True w3)"
    by blast
  then show ?thesis using t
    by (simp add: example_defs download_defs)
qed

subsection \<open>Failures of the feed lookup\<close>

text \<open>
  C8, as the code has it. For a manifest that is a feed: an error of the feed lookup is
  answered with not-found \<^verbatim>\<open>feed not found\<close>; a lookup that succeeds without an update
  (a nil chunk) is answered with not-found \<^verbatim>\<open>no update found\<close>; an update that
  \<^verbatim>\<open>parseFeedUpdate\<close> rejects is answered with the internal error
  \<^verbatim>\<open>mapStructure feed update\<close>.
\<close>

theorem feed_lookup_failures:
  assumes "NewDefaultManifestReference s address = Inr m" and "manifestFeed s m = Inr l"
  shows "(\<forall>err. At l (time_Now_Unix s) 0 = Inl err
            \<longrightarrow> snd (serveReference s r address pathVar w) = NotFound (Str ''feed not found''))
       \<and> (\<forall>cur. At l (time_Now_Unix s) 0 = Inr (None, cur)
            \<longrightarrow> snd (serveReference s r address pathVar w) = NotFound (Str ''no update found''))
       \<and> (\<forall>c cur err. At l (time_Now_Unix s) 0 = Inr (Some c, cur) \<and> parseFeedUpdate s c = Inl err
            \<longrightarrow> snd (serveReference s r address pathVar w)
                  = InternalServerError (Str ''mapStructure feed update''))"
proof (intro conjI allI impI)
  fix err
  assume "At l (time_Now_Unix s) 0 = Inl err"
  then show "snd (serveReference s r address pathVar w) = NotFound (Str ''feed not found'')"
    unfolding serveReference_def
    by (subst serveReference_FETCH.simps) (simp add: assms Let_def)
next
  fix cur
  assume "At l (time_Now_Unix s) 0 = Inr (None, cur)"
  then show "snd (serveReference s r address pathVar w) = NotFound (Str ''no update found'')"
    unfolding serveReference_def
    by (subst serveReference_FETCH.simps) (simp add: assms Let_def)
next
  fix c cur err
  assume "At l (time_Now_Unix s) 0 = Inr (Some c, cur) \<and> parseFeedUpdate s c = Inl err"
  then show "snd (serveReference s r address pathVar w)
               = InternalServerError (Str ''mapStructure feed update'')"
    unfolding serveReference_def
    by (subst serveReference_FETCH.simps) (simp add: assms Let_def)
qed

text \<open>
  C8 as stated fails: a lookup that finds no update is not answered with
  \<^verbatim>\<open>feed not found\<close>, and an update that does not parse is not answered with
  \<^verbatim>\<open>feed update malformed\<close>.
\<close>

theorem feed_lookup_failures_counterexample:
  "At (example_lookup None example_index) (time_Now_Unix example_no_update) 0
     = Inr (None, example_index)
   \<and> snd (serveReference example_no_update example_request [0xfe] [] example_w)
       = NotFound (Str ''no update found'')
   \<and> snd (serveReference example_no_update example_request [0xfe] [] example_w)
       \<noteq> NotFound (Str ''feed not found'')
   \<and> parseFeedUpdate example_malformed [] = Inl (Errorf ''empty update'')
   \<and> snd (serveReference example_malformed example_request [0xfe] [] example_w)
       = InternalServerError (Str ''mapStructure feed update'')
   \<and> snd (serveReference example_malformed example_request [0xfe] [] example_w)
       \<noteq> InternalServerError (Str ''feed update malformed'')
   \<and> snd (serveReference example_malformed example_request [0xfe] [] example_w)
       \<noteq> NotFound (Str ''feed update malformed'')"
proof -
  have 1: "snd (serveReference example_no_update example_request [0xfe] [] example_w)
       = NotFound (Str ''no update found'')"
    unfolding serveReference_def
    by (subst serveReference_FETCH.simps)
       (simp add: example_defs manifestFeed_def map_index_def fromHexChar_def Let_def)
  have 2: "snd (serveReference example_malformed example_request [0xfe] [] example_w)
       = InternalServerError (Str ''mapStructure feed update'')"
    unfolding serveReference_def
    by (subst serveReference_FETCH.simps)
       (simp add: example_defs manifestFeed_def map_index_def fromHexChar_def Let_def)
  have 3: "At (example_lookup None example_index) (time_Now_Unix example_no_update) 0
       = Inr (None, example_index)"
    and 4: "parseFeedUpdate example_malformed [] = Inl (Errorf ''empty update'')"
    by (simp_all add: example_defs)
  show ?thesis
    unfolding 1 2 using 3 4 by simp
qed

text \<open>
  The three cases on the example feed: a lookup that fails, one without an update, and
  one whose update is empty and does not parse.
\<close>

theorem feed_lookup_failures_witness:
  "snd (serveReference example_lookup_fails example_request [0xfe] [] example_w)
     = NotFound (Str ''feed not found'')
   \<and> snd (serveReference example_no_update example_request [0xfe] [] example_w)
     = NotFound (Str ''no update found'')
   \<and> snd (serveReference example_malformed example_request [0xfe] [] example_w)
     = InternalServerError (Str ''mapStructure feed update'')"
proof -
  have l1: "NewDefaultManifestReference example_lookup_fails [0xfe] = Inr (manifest_of example_feed)"
    and f1: "manifestFeed example_lookup_fails (manifest_of example_feed)
               = Inr \<lparr>At = (\<lambda>at after. Inl (OtherError 1))\<rparr>"
    and l2: "NewDefaultManifestReference example_no_update [0xfe] = Inr (manifest_of example_feed)"
    and f2: "manifestFeed example_no_update (manifest_of example_feed)
               = Inr (example_lookup None example_index)"
    and l3: "NewDefaultManifestReference example_malformed [0xfe] = Inr (manifest_of example_feed)"
    and f3: "manifestFeed example_malformed (manifest_of example_feed)
               = Inr (example_lookup (Some []) example_index)"
    by (simp_all add: example_defs manifestFeed_def map_index_def fromHexChar_def)
  have a1: "At \<lparr>At = (\<lambda>at after. Inl (OtherError 1))\<rparr> (time_Now_Unix example_lookup_fails) 0
              = Inl (OtherError 1)"
    and a2: "At (example_lookup None example_index) (time_Now_Unix example_no_update) 0
              = Inr (None, example_index)"
    and a3: "At (example_lookup (Some []) example_index) (time_Now_Unix example_malformed) 0
              = Inr (Some [], example_index)
             \<and> parseFeedUpdate example_malformed [] = Inl (Errorf ''empty update'')"
    by (simp_all add: example_defs)
  from feed_lookup_failures [OF l1 f1, of example_request "[]" example_w] a1
  have "snd (serveReference example_lookup_fails example_request [0xfe] [] example_w)
     = NotFound (Str ''feed not found'')"
    by blast
  moreover from feed_lookup_failures [OF l2 f2, of example_request "[]" example_w] a2
  have "snd (serveReference example_no_update example_request [0xfe] [] example_w)
     = NotFound (Str ''no update found'')"
    by blast
  moreover from feed_lookup_failures [OF l3 f3, of example_request "[]" example_w] a3
  have "snd (serveReference example_malformed example_request [0xfe] [] example_w)
     = InternalServerError (Str ''mapStructure feed update'')"
    by blast
  ultimately show ?thesis by blast
qed

subsection \<open>Resolution of the path\<close>

lemma manifestMetadataLoad_root:
  "manifestMetadataLoad m RootPath key =
     (case root_metadata m key of Some val \<Rightarrow> (val, True) | None \<Rightarrow> ([], False))"
  by (simp add: manifestMetadataLoad_def root_metadata_def split: sum.splits option.splits)

lemmas path_defs = root_metadata_def is_directory_def RootPath_def strings_HasPrefix_def
  strings_HasSuffix_def path_Join_def path_Clean_def Let_def

text \<open>
  C3. For the empty path on a loaded manifest: when the root entry has the
  index-document-suffix key and the lookup of the suffix joined to the empty path finds
  an entry, that entry is served; when the key is absent (or there is no root entry), or
  the joined lookup fails, the response is not-found \<^verbatim>\<open>address not found or incorrect\<close>.
\<close>

theorem servePath_empty_path:
  "(\<forall>suffix e. root_metadata m (WebsiteIndexDocumentSuffixKey s) = Some suffix
        \<and> Lookup m (path_Join [] suffix) = Inr e
        \<longrightarrow> servePath s r m [] feedDereferenced w
              = serveManifestEntry s w e (\<not> feedDereferenced))
   \<and> (root_metadata m (WebsiteIndexDocumentSuffixKey s) = None
        \<or> (\<exists>suffix err. root_metadata m (WebsiteIndexDocumentSuffixKey s) = Some suffix
              \<and> Lookup m (path_Join [] suffix) = Inl err)
        \<longrightarrow> servePath s r m [] feedDereferenced w
              = (w, NotFound (Str ''address not found or incorrect'')))"
  by (auto simp add: servePath_def manifestMetadataLoad_root Let_def)

text \<open>
  The site's index document is served for the empty path; a manifest without a root
  entry is answered with not-found.
\<close>

theorem servePath_empty_path_witness:
  "root_metadata (manifest_of example_site) (WebsiteIndexDocumentSuffixKey example_Service)
     = Some ''index.html''
   \<and> snd (servePath example_Service example_request (manifest_of example_site) [] False example_w)
     = ServeContent [0x11] 42 4096
   \<and> root_metadata (manifest_of []) (WebsiteIndexDocumentSuffixKey example_Service) = None
   \<and> servePath example_Service example_request (manifest_of []) [] False example_w
     = (example_w, NotFound (Str ''address not found or incorrect''))"
proof -
  have c: "root_metadata (manifest_of example_site) (WebsiteIndexDocumentSuffixKey example_Service)
             = Some ''index.html''
         \<and> Lookup (manifest_of example_site) (path_Join [] ''index.html'')
             = Inr \<lparr>Reference = [0x11],
                    Metadata = [''Filename'' \<mapsto> ''index.html'', ''Content-Type'' \<mapsto> ''text/html'']\<rparr>"
    by (simp add: example_defs path_defs)
  have n: "root_metadata (manifest_of []) (WebsiteIndexDocumentSuffixKey example_Service) = None"
    by (simp add: example_defs path_defs)
  from servePath_empty_path [of "manifest_of example_site" example_Service example_request False
      example_w] c
  have "servePath example_Service example_request (manifest_of example_site) [] False example_w
     = serveManifestEntry example_Service example_w
         \<lparr>Reference = [0x11],
          Metadata = [''Filename'' \<mapsto> ''index.html'', ''Content-Type'' \<mapsto> ''text/html'']\<rparr>
         (\<not> False)"
    by blast
  then have "snd (servePath example_Service example_request (manifest_of example_site) [] False
                    example_w) = ServeContent [0x11] 42 4096"
    by (simp add: example_defs serveManifestEntry_def downloadHandler_def Let_def)
  moreover
  from servePath_empty_path [of "manifest_of []" example_Service example_request False example_w] n
  have "servePath example_Service example_request (manifest_of []) [] False example_w
     = (example_w, NotFound (Str ''address not found or incorrect''))"
    by blast
  ultimately show ?thesis using c n by blast
qed

text \<open>
  C2. For a path that is not empty and whose lookup answers \<^verbatim>\<open>manifest.ErrNotFound\<close>,
  in this order: (a) a path that does not start with a slash and is a directory of the
  manifest is answered with the permanent redirect (308) to the request's URL followed
  by a slash; (b) otherwise, when an index-document suffix is configured, the path does
  not end with it and the joined path is found, that entry is served; (c) otherwise,
  when an error-document path is configured, differs from the path and is found, that
  entry is served; (d) otherwise the response is not-found \<^verbatim>\<open>path address not found\<close>.
\<close>

theorem servePath_not_found_fallback:
  assumes "pathVar \<noteq> []" and "Lookup m pathVar = Inl err"
    and "errors_Is err manifest_ErrNotFound"
  shows
   "(\<not> strings_HasPrefix pathVar ''/'' \<and> is_directory m pathVar
       \<longrightarrow> servePath s r m pathVar feedDereferenced w
             = (w, Redirect ((URL r)\<lparr>Path := Path (URL r) @ ''/''\<rparr>) 308))
    \<and> (\<not> (\<not> strings_HasPrefix pathVar ''/'' \<and> is_directory m pathVar)
       \<longrightarrow> (\<forall>suffix e. root_metadata m (WebsiteIndexDocumentSuffixKey s) = Some suffix
               \<and> \<not> strings_HasSuffix pathVar suffix
               \<and> Lookup m (path_Join pathVar suffix) = Inr e
               \<longrightarrow> servePath s r m pathVar feedDereferenced w
                     = serveManifestEntry s w e (\<not> feedDereferenced)))
    \<and> (\<not> (\<not> strings_HasPrefix pathVar ''/'' \<and> is_directory m pathVar)
        \<and> \<not> (\<exists>suffix e. root_metadata m (WebsiteIndexDocumentSuffixKey s) = Some suffix
               \<and> \<not> strings_HasSuffix pathVar suffix
               \<and> Lookup m (path_Join pathVar suffix) = Inr e)
       \<longrightarrow> (\<forall>errorDocumentPath e.
               root_metadata m (WebsiteErrorDocumentPathKey s) = Some errorDocumentPath
               \<and> pathVar \<noteq> errorDocumentPath \<and> Lookup m errorDocumentPath = Inr e
               \<longrightarrow> servePath s r m pathVar feedDereferenced w
                     = serveManifestEntry s w e (\<not> feedDereferenced)))
    \<and> (\<not> (\<not> strings_HasPrefix pathVar ''/'' \<and> is_directory m pathVar)
        \<and> \<not> (\<exists>suffix e. root_metadata m (WebsiteIndexDocumentSuffixKey s) = Some suffix
               \<and> \<not> strings_HasSuffix pathVar suffix
               \<and> Lookup m (path_Join pathVar suffix) = Inr e)
        \<and> \<not> (\<exists>errorDocumentPath e.
               root_metadata m (WebsiteErrorDocumentPathKey s) = Some errorDocumentPath
               \<and> pathVar \<noteq> errorDocumentPath \<and> Lookup m errorDocumentPath = Inr e)
       \<longrightarrow> servePath s r m pathVar feedDereferenced w
             = (w, NotFound (Str ''path address not found'')))"
proof -
  have dir: "checkDirectory r m pathVar w =
      (if \<not> strings_HasPrefix pathVar ''/'' \<and> is_directory m pathVar
       then Some (w, Redirect ((URL r)\<lparr>Path := Path (URL r) @ ''/''\<rparr>) 308) else None)"
    by (simp add: checkDirectory_def is_directory_def Let_def split: sum.splits)
  have idx: "checkIndexSuffix s m pathVar feedDereferenced w =
      (case root_metadata m (WebsiteIndexDocumentSuffixKey s) of
         None \<Rightarrow> None
       | Some suffix \<Rightarrow>
           if strings_HasSuffix pathVar suffix then None
           else (case Lookup m (path_Join pathVar suffix) of
                   Inl err \<Rightarrow> None
                 | Inr e \<Rightarrow> Some (serveManifestEntry s w e (\<not> feedDereferenced))))"
    by (simp add: checkIndexSuffix_def manifestMetadataLoad_root Let_def
        split: sum.splits option.splits)
  have errdoc: "checkErrorDocument s m pathVar feedDereferenced w =
      (case root_metadata m (WebsiteErrorDocumentPathKey s) of
         None \<Rightarrow> None
       | Some errorDocumentPath \<Rightarrow>
           if pathVar = errorDocumentPath then None
           else (case Lookup m errorDocumentPath of
                   Inl err \<Rightarrow> None
                 | Inr e \<Rightarrow> Some (serveManifestEntry s w e (\<not> feedDereferenced))))"
    by (simp add: checkErrorDocument_def manifestMetadataLoad_root Let_def
        split: sum.splits option.splits)
  have sp: "servePath s r m pathVar feedDereferenced w =
      (case checkDirectory r m pathVar w of
         Some done \<Rightarrow> done
       | None \<Rightarrow>
           (case checkIndexSuffix s m pathVar feedDereferenced w of
              Some done \<Rightarrow> done
            | None \<Rightarrow>
                (case checkErrorDocument s m pathVar feedDereferenced w of
                   Some done \<Rightarrow> done
                 | None \<Rightarrow> (w, NotFound (Str ''path address not found'')))))"
    using assms by (simp add: servePath_def)
  show ?thesis
    unfolding sp dir idx errdoc
    by (auto split: option.splits sum.splits)
qed

text \<open>
  On the site: \<^verbatim>\<open>img\<close> is a directory and is redirected, \<^verbatim>\<open>blog/\<close> gets its index
  document, \<^verbatim>\<open>nope\<close> gets the error document; on the target, which has no error
  document, \<^verbatim>\<open>nope\<close> is not found.
\<close>

theorem servePath_not_found_fallback_witness:
  "snd (servePath example_Service example_request (manifest_of example_site) ''img'' False example_w)
     = Redirect \<lparr>Path = ''/bzz/01/img/'', RawQuery = []\<rparr> 308
   \<and> snd (servePath example_Service example_request (manifest_of example_site) ''blog/'' False
            example_w) = ServeContent [0x14] 42 4096
   \<and> snd (servePath example_Service example_request (manifest_of example_site) ''nope'' False
            example_w) = ServeContent [0x12] 42 4096
   \<and> snd (servePath example_Service example_request (manifest_of example_target) ''nope'' False
            example_w) = NotFound (Str ''path address not found'')"
proof -
  let ?site = "manifest_of example_site" and ?target = "manifest_of example_target"
  have nf: "errors_Is manifest_ErrNotFound manifest_ErrNotFound"
    by simp
  have p1: "''img'' \<noteq> []" and l1: "Lookup ?site ''img'' = Inl manifest_ErrNotFound"
    and p2: "''blog/'' \<noteq> []" and l2: "Lookup ?site ''blog/'' = Inl manifest_ErrNotFound"
    and p3: "''nope'' \<noteq> []" and l3: "Lookup ?site ''nope'' = Inl manifest_ErrNotFound"
    and l4: "Lookup ?target ''nope'' = Inl manifest_ErrNotFound"
    by (simp_all add: example_defs)
  note t1 = servePath_not_found_fallback [OF p1 l1 nf, of example_Service example_request False example_w]
    and t2 = servePath_not_found_fallback [OF p2 l2 nf, of example_Service example_request False example_w]
    and t3 = servePath_not_found_fallback [OF p3 l3 nf, of example_Service example_request False example_w]
    and t4 = servePath_not_found_fallback [OF p3 l4 nf, of example_Service example_request False example_w]
  have a1: "\<not> strings_HasPrefix ''img'' ''/'' \<and> is_directory ?site ''img''"
    by (simp add: example_defs path_defs)
  have "snd (servePath example_Service example_request ?site ''img'' False example_w)
     = Redirect \<lparr>Path = ''/bzz/01/img/'', RawQuery = []\<rparr> 308"
    using t1 a1 by (simp add: example_defs)
  moreover
  have a2: "\<not> (\<not> strings_HasPrefix ''blog/'' ''/'' \<and> is_directory ?site ''blog/'')"
    and b2: "root_metadata ?site (WebsiteIndexDocumentSuffixKey example_Service) = Some ''index.html''
             \<and> \<not> strings_HasSuffix ''blog/'' ''index.html''
             \<and> Lookup ?site (path_Join ''blog/'' ''index.html'')
                 = Inr \<lparr>Reference = [0x14], Metadata = Map.empty\<rparr>"
    by (simp_all add: example_defs path_defs)
  from t2 a2 b2
  have "servePath example_Service example_request ?site ''blog/'' False example_w
     = serveManifestEntry example_Service example_w \<lparr>Reference = [0x14], Metadata = Map.empty\<rparr>
         (\<not> False)"
    by blast
  then have "snd (servePath example_Service example_request ?site ''blog/'' False example_w)
     = ServeContent [0x14] 42 4096"
    by (simp add: example_defs serveManifestEntry_def downloadHandler_def Let_def)
  moreover
  have a3: "\<not> (\<not> strings_HasPrefix ''nope'' ''/'' \<and> is_directory ?site ''nope'')"
    and b3: "\<not> (\<exists>suffix e. root_metadata ?site (WebsiteIndexDocumentSuffixKey example_Service)
                   = Some suffix
               \<and> \<not> strings_HasSuffix ''nope'' suffix
               \<and> Lookup ?site (path_Join ''nope'' suffix) = Inr e)"
    and c3: "root_metadata ?site (WebsiteErrorDocumentPathKey example_Service) = Some ''404.html''
             \<and> ''nope'' \<noteq> ''404.html''
             \<and> Lookup ?site ''404.html''
                 = Inr \<lparr>Reference = [0x12], Metadata = [''Filename'' \<mapsto> ''404.html'']\<rparr>"
    by (simp_all add: example_defs path_defs)
  from t3 a3 b3 c3
  have "servePath example_Service example_request ?site ''nope'' False example_w
     = serveManifestEntry example_Service example_w
         \<lparr>Reference = [0x12], Metadata = [''Filename'' \<mapsto> ''404.html'']\<rparr> (\<not> False)"
    by blast
  then have "snd (servePath example_Service example_request ?site ''nope'' False example_w)
     = ServeContent [0x12] 42 4096"
    by (simp add: example_defs serveManifestEntry_def downloadHandler_def Let_def)
  moreover
  have a4: "\<not> (\<not> strings_HasPrefix ''nope'' ''/'' \<and> is_directory ?target ''nope'')"
    and b4: "\<not> (\<exists>suffix e. root_metadata ?target (WebsiteIndexDocumentSuffixKey example_Service)
                   = Some suffix
               \<and> \<not> strings_HasSuffix ''nope'' suffix
               \<and> Lookup ?target (path_Join ''nope'' suffix) = Inr e)"
    and c4: "\<not> (\<exists>errorDocumentPath e.
               root_metadata ?target (WebsiteErrorDocumentPathKey example_Service)
                 = Some errorDocumentPath
               \<and> ''nope'' \<noteq> errorDocumentPath \<and> Lookup ?target errorDocumentPath = Inr e)"
    by (simp_all add: example_defs path_defs)
  from t4 a4 b4 c4
  have "servePath example_Service example_request ?target ''nope'' False example_w
     = (example_w, NotFound (Str ''path address not found''))"
    by blast
  ultimately show ?thesis by simp
qed

subsection \<open>The headers of a download\<close>

lemma canonical_constants:
  "CanonicalMIMEHeaderKey ''ETag'' = ''Etag''"
  "CanonicalMIMEHeaderKey ''Content-Length'' = ''Content-Length''"
  "CanonicalMIMEHeaderKey ''Access-Control-Expose-Headers'' = ''Access-Control-Expose-Headers''"
  "CanonicalMIMEHeaderKey ''Content-Disposition'' = ''Content-Disposition''"
  "CanonicalMIMEHeaderKey ''Content-Type'' = ''Content-Type''"
  by code_simp+

lemma Header_Header_Set:
  "Header (Header_Set w key val) k
     = (if k = CanonicalMIMEHeaderKey key then Some val else Header w k)"
  by (simp add: Header_Set_def)

lemma serveManifestEntry_ServeContent:
  assumes "serveManifestEntry s w e etag = (w', ServeContent reference l b)"
  shows "reference = Reference e"
    and "Header w' ''Etag''
          = (if etag then Some (Sprintf_q (address_String reference)) else Header w ''Etag'')"
    and "k \<notin> {''Etag'', ''Content-Length'', ''Access-Control-Expose-Headers'',
               ''Content-Disposition'', ''Content-Type''} \<Longrightarrow> Header w' k = Header w k"
  using assms
  by (auto simp add: serveManifestEntry_def downloadHandler_def Let_def Header_Header_Set
      canonical_constants split: sum.splits option.splits if_splits)

lemma servePath_ServeContent:
  assumes "servePath s r m p fd w = (w', ServeContent reference l b)"
  shows "\<exists>e. serveManifestEntry s w e (\<not> fd) = (w', ServeContent reference l b)"
  using assms
  by (auto simp add: servePath_def checkDirectory_def checkIndexSuffix_def
      checkErrorDocument_def Let_def split: sum.splits option.splits if_splits prod.splits)

lemma serveReference_feed_ServeContent:
  assumes run: "serveReference s r address pathVar w = (w', ServeContent reference l b)"
    and load: "NewDefaultManifestReference s address = Inr m"
    and feed: "manifestFeed s m = Inr l0"
    and at: "At l0 (time_Now_Unix s) 0 = Inr (ch, cur)"
    and bin: "MarshalBinary cur = Inr curBytes"
  shows "\<exists>w3 e. serveManifestEntry s w3 e False = (w', ServeContent reference l b)
           \<and> Header w3 = (Header w)
                (CanonicalMIMEHeaderKey (SwarmFeedIndexHeader s) \<mapsto> EncodeToString curBytes,
                 CanonicalMIMEHeaderKey ''Access-Control-Expose-Headers'' \<mapsto> SwarmFeedIndexHeader s)"
proof -
  from run load feed at obtain c where ch: "ch = Some c"
    unfolding serveReference_def
    by (subst (asm) serveReference_FETCH.simps) (cases ch; simp add: Let_def)
  from run load feed at ch obtain ref ts where parse: "parseFeedUpdate s c = Inr (ref, ts)"
    unfolding serveReference_def
    by (subst (asm) serveReference_FETCH.simps)
       (cases "parseFeedUpdate s c"; auto simp add: Let_def)
  let ?w3 = "call (ManifestLoad ref)
      (Header_Set (Header_Set (call (FeedAt (time_Now_Unix s))
                     (call ManifestFeed (call (ManifestLoad address) w)))
                     (SwarmFeedIndexHeader s) (EncodeToString curBytes))
         ''Access-Control-Expose-Headers'' (SwarmFeedIndexHeader s))"
  from serveReference_feed [OF load feed at [unfolded ch] parse bin, of r pathVar w] run
  have "(case NewDefaultManifestReference s ref of
           Inl err \<Rightarrow> (?w3, NotFound nil)
         | Inr m2 \<Rightarrow> servePath s r m2 pathVar True ?w3) = (w', ServeContent reference l b)"
    by (simp add: Let_def)
  then obtain m2 where "servePath s r m2 pathVar True ?w3 = (w', ServeContent reference l b)"
    by (cases "NewDefaultManifestReference s ref") auto
  from servePath_ServeContent [OF this]
  obtain e where "serveManifestEntry s ?w3 e False = (w', ServeContent reference l b)"
    by auto
  moreover have "Header ?w3 = (Header w)
                (CanonicalMIMEHeaderKey (SwarmFeedIndexHeader s) \<mapsto> EncodeToString curBytes,
                 CanonicalMIMEHeaderKey ''Access-Control-Expose-Headers'' \<mapsto> SwarmFeedIndexHeader s)"
    by (simp add: Header_Set_def)
  ultimately show ?thesis by blast
qed

text \<open>
  C6. A download that ends in \<^verbatim>\<open>http.ServeContent\<close> of a reference, with the header
  name of the feed index different (as a canonical header key) from the five names that
  the download sets. When the manifest at the address is not a feed, the response has
  the \<^verbatim>\<open>ETag\<close> header with the quoted hex form of the served reference, and the
  feed-index header is as it was before the handler ran. When the manifest is a feed,
  the \<^verbatim>\<open>ETag\<close> header is as it was before the handler ran, and the feed-index header
  is the hex form of the marshalled index of the update.
\<close>

theorem etag_and_feed_index_headers:
  assumes "serveReference s r address pathVar w = (w', ServeContent reference l b)"
    and "NewDefaultManifestReference s address = Inr m"
    and "CanonicalMIMEHeaderKey (SwarmFeedIndexHeader s) \<notin>
           CanonicalMIMEHeaderKey ` {''ETag'', ''Content-Length'', ''Access-Control-Expose-Headers'',
                                     ''Content-Disposition'', ''Content-Type''}"
  shows "((\<exists>err. manifestFeed s m = Inl err) \<longrightarrow>
            Header w' (CanonicalMIMEHeaderKey ''ETag'') = Some (Sprintf_q (address_String reference))
          \<and> Header w' (CanonicalMIMEHeaderKey (SwarmFeedIndexHeader s))
              = Header w (CanonicalMIMEHeaderKey (SwarmFeedIndexHeader s)))
       \<and> (\<forall>l0 ch cur curBytes.
            manifestFeed s m = Inr l0 \<and> At l0 (time_Now_Unix s) 0 = Inr (ch, cur)
            \<and> MarshalBinary cur = Inr curBytes \<longrightarrow>
            Header w' (CanonicalMIMEHeaderKey ''ETag'') = Header w (CanonicalMIMEHeaderKey ''ETag'')
          \<and> Header w' (CanonicalMIMEHeaderKey (SwarmFeedIndexHeader s))
              = Some (EncodeToString curBytes))"
proof (intro conjI allI impI)
  let ?k = "CanonicalMIMEHeaderKey (SwarmFeedIndexHeader s)"
  have k: "?k \<notin> {''Etag'', ''Content-Length'', ''Access-Control-Expose-Headers'',
                  ''Content-Disposition'', ''Content-Type''}"
    using assms(3) by (simp add: canonical_constants)
  {
    assume "\<exists>err. manifestFeed s m = Inl err"
    then obtain err where "manifestFeed s m = Inl err" by blast
    from serveReference_no_feed [OF assms(2) this, of r pathVar w] assms(1)
    have "servePath s r m pathVar False (call ManifestFeed (call (ManifestLoad address) w))
            = (w', ServeContent reference l b)"
      by simp
    from servePath_ServeContent [OF this] obtain e where
      e: "serveManifestEntry s (call ManifestFeed (call (ManifestLoad address) w)) e True
            = (w', ServeContent reference l b)"
      by auto
    from serveManifestEntry_ServeContent(2) [OF e]
    show "Header w' (CanonicalMIMEHeaderKey ''ETag'') = Some (Sprintf_q (address_String reference))"
      by (simp add: canonical_constants)
    from serveManifestEntry_ServeContent(3) [OF e k]
    show "Header w' ?k = Header w ?k"
      by simp
  }
  {
    fix l0 ch cur curBytes
    assume "manifestFeed s m = Inr l0 \<and> At l0 (time_Now_Unix s) 0 = Inr (ch, cur)
            \<and> MarshalBinary cur = Inr curBytes"
    then have f: "manifestFeed s m = Inr l0" "At l0 (time_Now_Unix s) 0 = Inr (ch, cur)"
      "MarshalBinary cur = Inr curBytes"
      by simp_all
    from serveReference_feed_ServeContent [OF assms(1,2) f]
    obtain w3 e where e: "serveManifestEntry s w3 e False = (w', ServeContent reference l b)"
      and w3: "Header w3 = (Header w)
                (?k \<mapsto> EncodeToString curBytes,
                 CanonicalMIMEHeaderKey ''Access-Control-Expose-Headers'' \<mapsto> SwarmFeedIndexHeader s)"
      by blast
    from serveManifestEntry_ServeContent(2) [OF e] w3 k
    show "Header w' (CanonicalMIMEHeaderKey ''ETag'') = Header w (CanonicalMIMEHeaderKey ''ETag'')"
      by (auto simp add: canonical_constants)
    from serveManifestEntry_ServeContent(3) [OF e k] w3 k
    show "Header w' ?k = Some (EncodeToString curBytes)"
      by (auto simp add: canonical_constants)
  }
qed

lemma canonical_examples:
  "CanonicalMIMEHeaderKey ''Swarm-Feed-Index'' = ''Swarm-Feed-Index''"
  "CanonicalMIMEHeaderKey ''Swarm-Tag'' = ''Swarm-Tag''"
  by code_simp+

lemma hex_examples:
  "EncodeToString [0x11] = ''11''"
  "EncodeToString [0, 0, 0, 0, 0, 0, 0, 5] = ''0000000000000005''"
  "EncodeToString [0xab, 0xcd] = ''abcd''"
  "EncodeToString [0x99] = ''99''"
  by code_simp+

text \<open>
  The site at \<open>01\<close> is served with an \<^verbatim>\<open>ETag\<close> and without a feed index; the feed at
  \<open>fe\<close> is served without an \<^verbatim>\<open>ETag\<close> and with the index of its update.
\<close>

theorem etag_and_feed_index_headers_witness:
  "snd (serveReference example_Service example_request [0x01] [] example_w)
     = ServeContent [0x11] 42 4096
   \<and> Header (fst (serveReference example_Service example_request [0x01] [] example_w)) ''Etag''
     = Some (Sprintf_q ''11'')
   \<and> Header (fst (serveReference example_Service example_request [0x01] [] example_w))
       ''Swarm-Feed-Index'' = None
   \<and> snd (serveReference example_Service example_request [0xfe] [] example_w)
     = ServeContent [0x21] 42 4096
   \<and> Header (fst (serveReference example_Service example_request [0xfe] [] example_w)) ''Etag''
     = None
   \<and> Header (fst (serveReference example_Service example_request [0xfe] [] example_w))
       ''Swarm-Feed-Index'' = Some ''0000000000000005''"
proof -
  let ?direct = "serveReference example_Service example_request [0x01] [] example_w"
  let ?feed = "serveReference example_Service example_request [0xfe] [] example_w"
  have k: "CanonicalMIMEHeaderKey (SwarmFeedIndexHeader example_Service) \<notin>
           CanonicalMIMEHeaderKey ` {''ETag'', ''Content-Length'', ''Access-Control-Expose-Headers'',
                                     ''Content-Disposition'', ''Content-Type''}"
    by (simp add: example_Service_def canonical_constants canonical_examples)
  have l1: "NewDefaultManifestReference example_Service [0x01] = Inr (manifest_of example_site)"
    and f1: "\<exists>err. manifestFeed example_Service (manifest_of example_site) = Inl err"
    and l2: "NewDefaultManifestReference example_Service [0xfe] = Inr (manifest_of example_feed)"
    and f2: "manifestFeed example_Service (manifest_of example_feed)
               = Inr (example_lookup (Some [0x02]) example_index)
             \<and> At (example_lookup (Some [0x02]) example_index) (time_Now_Unix example_Service) 0
               = Inr (Some [0x02], example_index)
             \<and> MarshalBinary example_index = Inr [0, 0, 0, 0, 0, 0, 0, 5]"
    by (simp_all add: example_defs manifestFeed_def map_index_def fromHexChar_def)
  have sfi: "SwarmFeedIndexHeader example_Service = ''Swarm-Feed-Index''"
    by (simp add: example_Service_def)
  have hw: "Header example_w = Map.empty"
    by (simp add: example_w_def)
  have s1: "snd ?direct = ServeContent [0x11] 42 4096"
    unfolding serveReference_def
    by (subst serveReference_FETCH.simps) (simp add: example_defs download_defs)
  have s2: "snd ?feed = ServeContent [0x21] 42 4096"
    unfolding serveReference_def
    by (subst serveReference_FETCH.simps, simp add: example_defs download_defs)+
  have r1: "?direct = (fst ?direct, ServeContent [0x11] 42 4096)"
    using s1 by (metis prod.collapse)
  have r2: "?feed = (fst ?feed, ServeContent [0x21] 42 4096)"
    using s2 by (metis prod.collapse)
  from etag_and_feed_index_headers [OF r1 l1 k] f1
  have "Header (fst ?direct) (CanonicalMIMEHeaderKey ''ETag'')
          = Some (Sprintf_q (address_String [0x11]))
      \<and> Header (fst ?direct) (CanonicalMIMEHeaderKey (SwarmFeedIndexHeader example_Service))
          = Header example_w (CanonicalMIMEHeaderKey (SwarmFeedIndexHeader example_Service))"
    by blast
  then have d: "Header (fst ?direct) ''Etag'' = Some (Sprintf_q ''11'')
      \<and> Header (fst ?direct) ''Swarm-Feed-Index'' = None"
    unfolding sfi hw canonical_constants canonical_examples address_String_def hex_examples
    by simp
  from etag_and_feed_index_headers [OF r2 l2 k] f2
  have "Header (fst ?feed) (CanonicalMIMEHeaderKey ''ETag'')
          = Header example_w (CanonicalMIMEHeaderKey ''ETag'')
      \<and> Header (fst ?feed) (CanonicalMIMEHeaderKey (SwarmFeedIndexHeader example_Service))
          = Some (EncodeToString [0, 0, 0, 0, 0, 0, 0, 5])"
    by blast
  then have f: "Header (fst ?feed) ''Etag'' = None
      \<and> Header (fst ?feed) ''Swarm-Feed-Index'' = Some ''0000000000000005''"
    unfolding sfi hw canonical_constants canonical_examples address_String_def hex_examples
    by simp
  from s1 s2 d f show ?thesis by blast
qed

subsection \<open>The hex form of a reference\<close>

lemma high_nibble: "unat (drop_bit 4 (v :: byte)) < 16"
proof -
  have "unat v < 2 ^ 8"
    using unsigned_less [of v] by simp
  moreover have "unat (drop_bit 4 v) = drop_bit 4 (unat v)"
    by (rule unat_drop_bit_eq)
  moreover have "drop_bit 4 (unat v) = unat v div 16"
    by (simp add: drop_bit_eq_div)
  ultimately show ?thesis
    by simp
qed

lemma low_nibble: "unat ((v :: byte) AND 0x0f) < 16"
proof -
  have "v AND 0x0f \<le> 0x0f"
    by (rule word_and_le1)
  then have "unat (v AND 0x0f) \<le> unat (0x0f :: byte)"
    by (simp add: word_le_nat_alt)
  then show ?thesis by simp
qed

lemma hextable_no_slash:
  assumes "n < 16"
  shows "hextable ! n \<noteq> CHR ''/''" and "CHR ''/'' \<noteq> hextable ! n"
proof -
  have "hextable ! n \<in> set hextable"
    using assms by (intro nth_mem) (simp add: hextable_def)
  moreover have "CHR ''/'' \<notin> set hextable"
    by (simp add: hextable_def)
  ultimately show "hextable ! n \<noteq> CHR ''/''" and "CHR ''/'' \<noteq> hextable ! n"
    by metis+
qed

lemma EncodeToString_no_slash: "CHR ''/'' \<notin> set (EncodeToString src)"
  by (induction src)
     (simp_all add: hextable_no_slash [OF high_nibble] hextable_no_slash [OF low_nibble])

lemma address_String_not_rooted: "\<not> strings_HasPrefix (address_String fr) ''/''"
proof (cases "EncodeToString fr")
  case Nil
  then show ?thesis
    by (simp add: strings_HasPrefix_def address_String_def)
next
  case (Cons c cs)
  with EncodeToString_no_slash [of fr] have "c \<noteq> CHR ''/''"
    by auto
  with Cons show ?thesis
    by (simp add: strings_HasPrefix_def address_String_def)
qed

lemma validate_Struct_address_String: "validate_Struct (address_String fr) = None"
  by (simp add: validate_Struct_def address_String_not_rooted)


subsection \<open>The calls of an upload that succeeds\<close>

lemma run_storeSizeFn_Nil [simp]: "run_storeSizeFn [] w d = (w, None)"
  by simp

lemma run_storeSizeFn_tag:
  "run_storeSizeFn [storeSizeFn_tag s encrypt] w d = (w', None) \<Longrightarrow>
     Header w' = Header w \<and>
     calls w' = calls w @ (if calculateNumberOfChunks s d encrypt > 0
                           then [TagIncN (calculateNumberOfChunks s d encrypt)] else [])"
  by (auto simp add: storeSizeFn_tag_def Let_def call_def split: option.splits if_splits)

lemma save_nodes_success:
  assumes "save_nodes s (if \<not> created then [storeSizeFn_tag s encrypt] else []) w nodes = (w', None)"
  shows "Header w' = Header w \<and>
     calls w' = calls w @
       concat (map (\<lambda>d. (if \<not> created \<and> calculateNumberOfChunks s d encrypt > 0
                           then [TagIncN (calculateNumberOfChunks s d encrypt)] else [])
                         @ [ManifestSave d]) nodes)"
  using assms
proof (induction nodes arbitrary: w)
  case Nil
  then show ?case by simp
next
  case (Cons d nodes)
  let ?fns = "if \<not> created then [storeSizeFn_tag s encrypt] else []"
  obtain w1 e1 where r1: "run_storeSizeFn ?fns w d = (w1, e1)"
    by (cases "run_storeSizeFn ?fns w d") auto
  with Cons.prems have e1: "e1 = None"
    by (cases e1) auto
  have w1: "Header w1 = Header w \<and>
     calls w1 = calls w @ (if \<not> created \<and> calculateNumberOfChunks s d encrypt > 0
                           then [TagIncN (calculateNumberOfChunks s d encrypt)] else [])"
  proof (cases created)
    case True
    with r1 show ?thesis by simp
  next
    case False
    with r1 e1 run_storeSizeFn_tag [of s encrypt w d w1] show ?thesis by simp
  qed
  from Cons.prems r1 e1 have sv: "loadsave_Save s (calls w1) d = None"
    and rest: "save_nodes s ?fns (call (ManifestSave d) w1) nodes = (w', None)"
    by (auto split: option.splits)
  from Cons.IH [OF rest] w1 show ?case
    by simp
qed

lemma manifest_Store_success:
  assumes "manifest_Store s (if \<not> created then [storeSizeFn_tag s encrypt] else []) w
             = (w', Inr manifestReference)"
  shows "Header w' = Header w \<and>
     manifestReference = manifest_Reference s (calls w') \<and>
     calls w' = calls w @ [ManifestStore] @
       concat (map (\<lambda>d. (if \<not> created \<and> calculateNumberOfChunks s d encrypt > 0
                           then [TagIncN (calculateNumberOfChunks s d encrypt)] else [])
                         @ [ManifestSave d]) (manifest_nodes s (calls w @ [ManifestStore])))"
proof -
  let ?fns = "if \<not> created then [storeSizeFn_tag s encrypt] else []"
  let ?w1 = "call ManifestStore w"
  obtain w2 e where sn: "save_nodes s ?fns ?w1 (manifest_nodes s (calls ?w1)) = (w2, e)"
    by (cases "save_nodes s ?fns ?w1 (manifest_nodes s (calls ?w1))") auto
  with assms have e: "e = None" and w2: "w2 = w'"
    and ref: "manifestReference = manifest_Reference s (calls w2)"
    by (auto simp add: manifest_Store_def Let_def split: option.splits)
  from save_nodes_success [OF sn [unfolded e]] w2 ref show ?thesis
    by simp
qed

lemma upload_finish_Created:
  assumes "upload_finish s r waitFn tag_Uid manifestReference w = (w', Created p)"
  shows "p = bzzUploadResponse manifestReference \<and>
     calls w' = calls w @ (if requestPin r then [CreatePin manifestReference] else []) @ [Wait] \<and>
     waitFn (calls w @ (if requestPin r then [CreatePin manifestReference] else [])) = None \<and>
     Header w' = (Header w)
       (CanonicalMIMEHeaderKey ''ETag'' \<mapsto> Sprintf_q (address_String manifestReference),
        CanonicalMIMEHeaderKey (SwarmTagHeader s) \<mapsto> FormatNat tag_Uid,
        CanonicalMIMEHeaderKey ''Access-Control-Expose-Headers'' \<mapsto> SwarmTagHeader s)"
  using assms
  by (auto simp add: upload_finish_def Let_def Header_Set_def call_def
      split: option.splits if_splits)

lemma upload_manifest_Created:
  assumes "upload_manifest s r waitFn tag_Uid created fr FileName w = (w', Created p)"
  shows "\<exists>nodes manifestReference.
     p = bzzUploadResponse manifestReference \<and>
     calls w' = calls w @
       [ManifestAdd RootPath
          \<lparr>Reference = ZeroAddress s, Metadata = [WebsiteIndexDocumentSuffixKey s \<mapsto> FileName]\<rparr>,
        ManifestAdd FileName
          \<lparr>Reference = fr,
           Metadata = [EntryMetadataContentTypeKey s \<mapsto> Header_Get r (contentTypeHeader s),
                       EntryMetadataFilenameKey s \<mapsto> FileName]\<rparr>,
        ManifestStore] @
       concat (map (\<lambda>d. (if \<not> created \<and> calculateNumberOfChunks s d (requestEncrypt r) > 0
                           then [TagIncN (calculateNumberOfChunks s d (requestEncrypt r))] else [])
                         @ [ManifestSave d]) nodes) @
       (if created then [TagDoneSplit manifestReference] else []) @
       (if requestPin r then [CreatePin manifestReference] else []) @ [Wait] \<and>
     waitFn (butlast (calls w')) = None \<and>
     Header w' = (Header w)
       (CanonicalMIMEHeaderKey ''ETag'' \<mapsto> Sprintf_q (address_String manifestReference),
        CanonicalMIMEHeaderKey (SwarmTagHeader s) \<mapsto> FormatNat tag_Uid,
        CanonicalMIMEHeaderKey ''Access-Control-Expose-Headers'' \<mapsto> SwarmTagHeader s)"
proof -
  let ?root = "\<lparr>Reference = ZeroAddress s, Metadata = [WebsiteIndexDocumentSuffixKey s \<mapsto> FileName]\<rparr>"
  let ?file = "\<lparr>Reference = fr,
           Metadata = [EntryMetadataContentTypeKey s \<mapsto> Header_Get r (contentTypeHeader s),
                       EntryMetadataFilenameKey s \<mapsto> FileName]\<rparr>"
  let ?w2 = "call (ManifestAdd FileName ?file) (call (ManifestAdd RootPath ?root) w)"
  let ?fns = "if \<not> created then [storeSizeFn_tag s (requestEncrypt r)] else []"
  obtain w3 res where st: "manifest_Store s ?fns ?w2 = (w3, res)"
    by (cases "manifest_Store s ?fns ?w2") auto
  from assms st obtain manifestReference where res: "res = Inr manifestReference"
    by (cases res)
       (auto simp add: upload_manifest_def Let_def split: option.splits if_splits)
  from manifest_Store_success [OF st [unfolded res]]
  have w3: "Header w3 = Header w"
    "calls w3 = calls ?w2 @ [ManifestStore] @
       concat (map (\<lambda>d. (if \<not> created \<and> calculateNumberOfChunks s d (requestEncrypt r) > 0
                           then [TagIncN (calculateNumberOfChunks s d (requestEncrypt r))] else [])
                         @ [ManifestSave d]) (manifest_nodes s (calls ?w2 @ [ManifestStore])))"
    by simp_all
  let ?w4 = "if created then call (TagDoneSplit manifestReference) w3 else w3"
  from assms st res have fin: "upload_finish s r waitFn tag_Uid manifestReference ?w4 = (w', Created p)"
    by (auto simp add: upload_manifest_def Let_def split: option.splits if_splits)
  from upload_finish_Created [OF fin]
  have f: "p = bzzUploadResponse manifestReference"
    "calls w' = calls ?w4 @ (if requestPin r then [CreatePin manifestReference] else []) @ [Wait]"
    "waitFn (calls ?w4 @ (if requestPin r then [CreatePin manifestReference] else [])) = None"
    "Header w' = (Header ?w4)
       (CanonicalMIMEHeaderKey ''ETag'' \<mapsto> Sprintf_q (address_String manifestReference),
        CanonicalMIMEHeaderKey (SwarmTagHeader s) \<mapsto> FormatNat tag_Uid,
        CanonicalMIMEHeaderKey ''Access-Control-Expose-Headers'' \<mapsto> SwarmTagHeader s)"
    by simp_all
  have b: "waitFn (butlast (calls w')) = None"
    using f(2,3) by (simp add: butlast_append)
  have h: "Header ?w4 = Header w"
    using w3(1) by simp
  have c: "calls ?w4 = calls w3 @ (if created then [TagDoneSplit manifestReference] else [])"
    by simp
  show ?thesis
    apply (rule exI [of _ "manifest_nodes s (calls ?w2 @ [ManifestStore])"])
    apply (rule exI [of _ manifestReference])
    using f(1) f(2) b f(4) h c w3(2)
    by simp
qed

lemma upload_store_Created:
  assumes "upload_store s r waitFn tag_Uid created FileName0 w = (w', Created p)"
  shows "\<exists>fr. pipeline s (calls w) = Inr fr \<and>
     validate_Struct (if FileName0 = [] then address_String fr else FileName0)
       = (if FileName0 = [] then None else validate_Struct FileName0) \<and>
     upload_manifest s r waitFn tag_Uid created fr
       (if FileName0 = [] then address_String fr else FileName0) (call PipelineStore w)
       = (w', Created p)"
  using assms
  by (auto simp add: upload_store_def Let_def split: sum.splits option.splits if_splits)

lemma fileUploadHandler_Created:
  assumes "fileUploadHandler s r waitFn w = (w', Created p)"
  shows "\<exists>tag_Uid created.
     getOrCreateTag s (Header_Get r (SwarmTagHeader s)) = Inr (tag_Uid, created) \<and>
     validate_Struct (Query_name r) = None \<and>
     upload_store s r waitFn tag_Uid created (Query_name r)
       (if \<not> created \<and> requestCalculateNumberOfChunks r > 0
        then call (TagIncN (requestCalculateNumberOfChunks r)) w else w)
       = (w', Created p)"
proof -
  have q: "mapStructure_queries s r = Inr (Query_name r)"
    and v: "validate_Struct (Query_name r) = None"
  proof -
    show "validate_Struct (Query_name r) = None"
    proof (cases "validate_Struct (Query_name r)")
      case None
      then show ?thesis by simp
    next
      case (Some err)
      with assms show ?thesis
        by (simp add: fileUploadHandler_def mapStructure_queries_def mapStructure_response_def)
    qed
    then show "mapStructure_queries s r = Inr (Query_name r)"
      by (simp add: mapStructure_queries_def)
  qed
  obtain tag_Uid created where
    tag: "getOrCreateTag s (Header_Get r (SwarmTagHeader s)) = Inr (tag_Uid, created)"
  proof (cases "getOrCreateTag s (Header_Get r (SwarmTagHeader s))")
    case (Inl err)
    with assms q show ?thesis
      by (simp add: fileUploadHandler_def split: if_splits)
  next
    case (Inr tc)
    with that show ?thesis by (cases tc) auto
  qed
  from assms q tag
  have "upload_store s r waitFn tag_Uid created (Query_name r)
       (if \<not> created \<and> requestCalculateNumberOfChunks r > 0
        then call (TagIncN (requestCalculateNumberOfChunks r)) w else w)
       = (w', Created p)"
    by (simp add: fileUploadHandler_def Let_def split: if_splits option.splits)
  with tag v show ?thesis by blast
qed

lemma filter_isTagDoneSplit_nodes [simp]:
  "filter isTagDoneSplit
     (concat (map (\<lambda>d. (if c d then [TagIncN (n d)] else []) @ [ManifestSave d]) nodes)) = []"
  by (induction nodes) simp_all

lemma filter_isTagIncN_saves [simp]:
  "filter isTagIncN (map ManifestSave nodes) = []"
  by (induction nodes) simp_all

lemma filter_isTagDoneSplit_saves [simp]:
  "filter isTagDoneSplit (map ManifestSave nodes) = []"
  by (induction nodes) simp_all

lemma concat_saves [simp]: "concat (map (\<lambda>d. [ManifestSave d]) nodes) = map ManifestSave nodes"
  by (induction nodes) simp_all


lemma address_String_examples:
  "address_String [0xab, 0xcd] = ''abcd''"
  "address_String [0x99] = ''99''"
  unfolding address_String_def hex_examples by (rule refl)+









lemmas upload_defs =
  fileUploadHandler_def mapStructure_queries_def upload_store_def
  upload_manifest_def upload_finish_def manifest_Store_def storeSizeFn_tag_def
  call_def Header_Set_def RootPath_def Let_def

lemma example_upload_created:
  "snd (fileUploadHandler example_Service example_request example_wait example_w)
     = Created (bzzUploadResponse [0x99])"
  by (simp add: example_defs upload_defs validate_Struct_def strings_HasPrefix_def
      address_String_examples validate_Struct_address_String)



subsection \<open>The default file name\<close>





subsection \<open>The wait before the response\<close>

lemma wait_gate_prepend:
  assumes "wait_gate waitFn (base @ evs) new rep" and "Wait \<notin> set evs"
  shows "wait_gate waitFn base (evs @ new) rep"
proof -
  from assms(1) consider
    (none) "Wait \<notin> set new" "\<forall>p. rep \<noteq> Created p"
      "rep \<noteq> InternalServerError (Str ''sync chunks failed'')"
  | (waited) pre where "new = pre @ [Wait]" "Wait \<notin> set pre"
      "case waitFn ((base @ evs) @ pre) of
         None \<Rightarrow> (\<exists>manifestReference. rep = Created (bzzUploadResponse manifestReference))
       | Some err \<Rightarrow> rep = InternalServerError (Str ''sync chunks failed'')"
    unfolding wait_gate_def by blast
  then show ?thesis
  proof cases
    case none
    with assms(2) show ?thesis
      by (simp add: wait_gate_def)
  next
    case waited
    with assms(2) have "evs @ new = (evs @ pre) @ [Wait]" "Wait \<notin> set (evs @ pre)"
      "case waitFn (base @ (evs @ pre)) of
         None \<Rightarrow> (\<exists>manifestReference. rep = Created (bzzUploadResponse manifestReference))
       | Some err \<Rightarrow> rep = InternalServerError (Str ''sync chunks failed'')"
      by simp_all
    then show ?thesis
      unfolding wait_gate_def by blast
  qed
qed

lemma wait_gate_early:
  assumes "Wait \<notin> set new" and "\<forall>p. rep \<noteq> Created p"
    and "rep \<noteq> InternalServerError (Str ''sync chunks failed'')"
  shows "wait_gate waitFn base new rep"
  using assms by (simp add: wait_gate_def)

lemma upload_finish_gate:
  assumes "upload_finish s r waitFn tag_Uid manifestReference w = (w', rep)"
  shows "\<exists>new. calls w' = calls w @ new \<and> wait_gate waitFn (calls w) new rep
           \<and> ((\<forall>p. rep \<noteq> Created p) \<longrightarrow> Header w' = Header w)"
proof (cases "requestPin r")
  case True
  show ?thesis
  proof (cases "pinning_CreatePin s (calls w) manifestReference")
    case (Some err)
    with True assms have "calls w' = calls w @ [CreatePin manifestReference]"
      "rep = InternalServerError (Str ''create pin failed'')" "Header w' = Header w"
      by (auto simp add: upload_finish_def)
    then show ?thesis
      by (simp add: wait_gate_def)
  next
    case None
    show ?thesis
    proof (cases "waitFn (calls w @ [CreatePin manifestReference])")
      case (Some err)
      with True None assms have "calls w' = calls w @ [CreatePin manifestReference] @ [Wait]"
        "rep = InternalServerError (Str ''sync chunks failed'')" "Header w' = Header w"
        by (auto simp add: upload_finish_def)
      with Some show ?thesis
        by (auto simp add: wait_gate_def intro!: exI [of _ "[CreatePin manifestReference]"])
    next
      case None': None
      with True None assms have "calls w' = calls w @ [CreatePin manifestReference] @ [Wait]"
        "rep = Created (bzzUploadResponse manifestReference)"
        by (auto simp add: upload_finish_def Let_def)
      with None' show ?thesis
        by (auto simp add: wait_gate_def intro!: exI [of _ "[CreatePin manifestReference]"])
    qed
  qed
next
  case False
  show ?thesis
  proof (cases "waitFn (calls w)")
    case (Some err)
    with False assms have "calls w' = calls w @ [Wait]"
      "rep = InternalServerError (Str ''sync chunks failed'')" "Header w' = Header w"
      by (auto simp add: upload_finish_def)
    with Some show ?thesis
      by (auto simp add: wait_gate_def intro!: exI [of _ "[]"])
  next
    case None
    with False assms have "calls w' = calls w @ [Wait]"
      "rep = Created (bzzUploadResponse manifestReference)"
      by (auto simp add: upload_finish_def Let_def)
    with None show ?thesis
      by (auto simp add: wait_gate_def intro!: exI [of _ "[]"])
  qed
qed

lemma run_storeSizeFn_calls:
  assumes "run_storeSizeFn (if \<not> created then [storeSizeFn_tag s encrypt] else []) w d = (w', e)"
  shows "\<exists>new. calls w' = calls w @ new \<and> Wait \<notin> set new \<and> Header w' = Header w"
  using assms
  by (cases created)
     (auto simp add: storeSizeFn_tag_def Let_def split: option.splits if_splits)

lemma save_nodes_calls:
  assumes "save_nodes s (if \<not> created then [storeSizeFn_tag s encrypt] else []) w nodes = (w', e)"
  shows "\<exists>new. calls w' = calls w @ new \<and> Wait \<notin> set new \<and> Header w' = Header w"
  using assms
proof (induction nodes arbitrary: w)
  case Nil
  then show ?case by simp
next
  case (Cons d nodes)
  let ?fns = "if \<not> created then [storeSizeFn_tag s encrypt] else []"
  obtain w1 e1 where r1: "run_storeSizeFn ?fns w d = (w1, e1)"
    by (cases "run_storeSizeFn ?fns w d") auto
  from run_storeSizeFn_calls [OF r1] obtain new1 where
    n1: "calls w1 = calls w @ new1" "Wait \<notin> set new1" "Header w1 = Header w"
    by blast
  show ?case
  proof (cases e1)
    case (Some err)
    with Cons.prems r1 have "w' = w1" by simp
    with n1 show ?thesis by blast
  next
    case None
    show ?thesis
    proof (cases "loadsave_Save s (calls w1) d")
      case (Some err)
      with Cons.prems r1 None have "w' = call (ManifestSave d) w1" by simp
      with n1 have "calls w' = calls w @ (new1 @ [ManifestSave d])"
        "Wait \<notin> set (new1 @ [ManifestSave d])" "Header w' = Header w"
        by simp_all
      then show ?thesis by blast
    next
      case None': None
      with Cons.prems r1 None
      have "save_nodes s ?fns (call (ManifestSave d) w1) nodes = (w', e)" by simp
      from Cons.IH [OF this] obtain new2 where
        "calls w' = calls (call (ManifestSave d) w1) @ new2" "Wait \<notin> set new2"
        "Header w' = Header (call (ManifestSave d) w1)"
        by blast
      with n1 have "calls w' = calls w @ (new1 @ ManifestSave d # new2)"
        "Wait \<notin> set (new1 @ ManifestSave d # new2)" "Header w' = Header w"
        by simp_all
      then show ?thesis by blast
    qed
  qed
qed

lemma manifest_Store_calls:
  assumes "manifest_Store s (if \<not> created then [storeSizeFn_tag s encrypt] else []) w = (w', res)"
  shows "\<exists>new. calls w' = calls w @ new \<and> Wait \<notin> set new \<and> Header w' = Header w"
proof -
  let ?fns = "if \<not> created then [storeSizeFn_tag s encrypt] else []"
  let ?w1 = "call ManifestStore w"
  obtain w2 e where sn: "save_nodes s ?fns ?w1 (manifest_nodes s (calls ?w1)) = (w2, e)"
    by (cases "save_nodes s ?fns ?w1 (manifest_nodes s (calls ?w1))") auto
  with assms have "w' = w2"
    by (auto simp add: manifest_Store_def Let_def split: option.splits)
  with save_nodes_calls [OF sn] obtain new where
    "calls w' = calls ?w1 @ new" "Wait \<notin> set new" "Header w' = Header ?w1"
    by blast
  then have "calls w' = calls w @ (ManifestStore # new)" "Wait \<notin> set (ManifestStore # new)"
    "Header w' = Header w"
    by simp_all
  then show ?thesis by blast
qed

lemma upload_manifest_gate:
  assumes "upload_manifest s r waitFn tag_Uid created fr FileName w = (w', rep)"
  shows "\<exists>new. calls w' = calls w @ new \<and> wait_gate waitFn (calls w) new rep
           \<and> ((\<forall>p. rep \<noteq> Created p) \<longrightarrow> Header w' = Header w)"
proof -
  let ?root = "\<lparr>Reference = ZeroAddress s, Metadata = [WebsiteIndexDocumentSuffixKey s \<mapsto> FileName]\<rparr>"
  let ?file = "\<lparr>Reference = fr,
           Metadata = [EntryMetadataContentTypeKey s \<mapsto> Header_Get r (contentTypeHeader s),
                       EntryMetadataFilenameKey s \<mapsto> FileName]\<rparr>"
  let ?w1 = "call (ManifestAdd RootPath ?root) w"
  let ?w2 = "call (ManifestAdd FileName ?file) ?w1"
  let ?fns = "if \<not> created then [storeSizeFn_tag s (requestEncrypt r)] else []"
  show ?thesis
  proof (cases "NewDefaultManifest s (requestEncrypt r)")
    case (Some err)
    with assms have "w' = w" "\<forall>p. rep \<noteq> Created p"
      "rep \<noteq> InternalServerError (Str ''sync chunks failed'')"
      by (auto simp add: upload_manifest_def Let_def split: if_splits)
    then show ?thesis
      by (intro exI [of _ "[]"]) (simp add: wait_gate_def)
  next
    case None
    note nm = None
    show ?thesis
    proof (cases "manifest_Add s (calls w) RootPath ?root")
      case (Some err)
      with nm assms have "w' = ?w1" "rep = InternalServerError (Str ''add metadata failed'')"
        by (auto simp add: upload_manifest_def Let_def)
      then show ?thesis
        by (intro exI [of _ "[ManifestAdd RootPath ?root]"]) (simp add: wait_gate_def)
    next
      case None
      note a1 = None
      show ?thesis
      proof (cases "manifest_Add s (calls ?w1) FileName ?file")
        case (Some err)
        with nm a1 assms have "w' = ?w2" "rep = InternalServerError (Str ''add file failed'')"
          by (auto simp add: upload_manifest_def Let_def)
        then show ?thesis
          by (intro exI [of _ "[ManifestAdd RootPath ?root, ManifestAdd FileName ?file]"])
             (simp add: wait_gate_def)
      next
        case None
        note a2 = None
        obtain w3 res where st: "manifest_Store s ?fns ?w2 = (w3, res)"
          by (cases "manifest_Store s ?fns ?w2") auto
        from manifest_Store_calls [OF st] obtain new3 where
          n3: "calls w3 = calls ?w2 @ new3" "Wait \<notin> set new3" "Header w3 = Header ?w2"
          by blast
        let ?pre = "[ManifestAdd RootPath ?root, ManifestAdd FileName ?file] @ new3"
        have c3: "calls w3 = calls w @ ?pre" and p3: "Wait \<notin> set ?pre" and h3: "Header w3 = Header w"
          using n3 by simp_all
        show ?thesis
        proof (cases res)
          case (Inl err)
          with nm a1 a2 st assms have "w' = w3" "\<forall>p. rep \<noteq> Created p"
            "rep \<noteq> InternalServerError (Str ''sync chunks failed'')"
            by (auto simp add: upload_manifest_def Let_def split: if_splits)
          with c3 p3 h3 show ?thesis
            by (intro exI [of _ ?pre]) (simp add: wait_gate_def)
        next
          case (Inr manifestReference)
          note ok = Inr
          show ?thesis
          proof (cases "created \<and> tag_DoneSplit s (calls w3) manifestReference \<noteq> None")
            case True
            with nm a1 a2 st ok assms have "w' = call (TagDoneSplit manifestReference) w3"
              "rep = InternalServerError (Str ''done split failed'')"
              by (auto simp add: upload_manifest_def Let_def)
            with c3 p3 h3 show ?thesis
              by (intro exI [of _ "?pre @ [TagDoneSplit manifestReference]"])
                 (simp add: wait_gate_def)
          next
            case False
            let ?w4 = "if created then call (TagDoneSplit manifestReference) w3 else w3"
            let ?evs = "?pre @ (if created then [TagDoneSplit manifestReference] else [])"
            from False nm a1 a2 st ok assms
            have fin: "upload_finish s r waitFn tag_Uid manifestReference ?w4 = (w', rep)"
              by (auto simp add: upload_manifest_def Let_def)
            have c4: "calls ?w4 = calls w @ ?evs" and p4: "Wait \<notin> set ?evs"
              and h4: "Header ?w4 = Header w"
              using c3 p3 h3 by simp_all
            from upload_finish_gate [OF fin] obtain new where
              n: "calls w' = calls ?w4 @ new" "wait_gate waitFn (calls ?w4) new rep"
              "(\<forall>p. rep \<noteq> Created p) \<longrightarrow> Header w' = Header ?w4"
              by blast
            from n(2) have "wait_gate waitFn (calls w) (?evs @ new) rep"
              unfolding c4 using p4 by (rule wait_gate_prepend)
            moreover have "calls w' = calls w @ (?evs @ new)"
              using n(1) c4 by simp
            moreover have "(\<forall>p. rep \<noteq> Created p) \<longrightarrow> Header w' = Header w"
              using n(3) h4 by simp
            ultimately show ?thesis by blast
          qed
        qed
      qed
    qed
  qed
qed

lemma upload_store_gate:
  assumes "upload_store s r waitFn tag_Uid created FileName0 w = (w', rep)"
  shows "\<exists>new. calls w' = calls w @ new \<and> wait_gate waitFn (calls w) new rep
           \<and> ((\<forall>p. rep \<noteq> Created p) \<longrightarrow> Header w' = Header w)"
proof (cases "pipeline s (calls w)")
  case (Inl err)
  with assms have "w' = call PipelineStore w" "\<forall>p. rep \<noteq> Created p"
    "rep \<noteq> InternalServerError (Str ''sync chunks failed'')"
    by (auto simp add: upload_store_def split: if_splits)
  then show ?thesis
    by (intro exI [of _ "[PipelineStore]"]) (simp add: wait_gate_def)
next
  case (Inr fr)
  let ?w1 = "call PipelineStore w"
  let ?name = "if FileName0 = [] then address_String fr else FileName0"
  from Inr assms validate_Struct_address_String [of fr]
  have m: "upload_manifest s r waitFn tag_Uid created fr ?name ?w1 = (w', rep)"
    by (auto simp add: upload_store_def Let_def)
  from upload_manifest_gate [OF m] obtain new where
    n: "calls w' = calls ?w1 @ new" "wait_gate waitFn (calls ?w1) new rep"
    "(\<forall>p. rep \<noteq> Created p) \<longrightarrow> Header w' = Header ?w1"
    by blast
  have c1: "calls ?w1 = calls w @ [PipelineStore]"
    by simp
  from n(2) have "wait_gate waitFn (calls w) ([PipelineStore] @ new) rep"
    unfolding c1 by (rule wait_gate_prepend) simp
  moreover have "calls w' = calls w @ ([PipelineStore] @ new)"
    using n(1) by simp
  moreover have "(\<forall>p. rep \<noteq> Created p) \<longrightarrow> Header w' = Header w"
    using n(3) by simp
  ultimately show ?thesis by blast
qed

lemma fileUploadHandler_gate:
  assumes "fileUploadHandler s r waitFn w = (w', rep)"
  shows "\<exists>new. calls w' = calls w @ new \<and> wait_gate waitFn (calls w) new rep
           \<and> ((\<forall>p. rep \<noteq> Created p) \<longrightarrow> Header w' = Header w)"
proof (cases "validate_Struct (Query_name r)")
  case (Some err)
  with assms have "w' = w" "\<forall>p. rep \<noteq> Created p"
    "rep \<noteq> InternalServerError (Str ''sync chunks failed'')"
    by (auto simp add: fileUploadHandler_def mapStructure_queries_def mapStructure_response_def)
  then show ?thesis
    by (intro exI [of _ "[]"]) (simp add: wait_gate_def)
next
  case None
  note q = None
  show ?thesis
  proof (cases "getOrCreateTag s (Header_Get r (SwarmTagHeader s))")
    case (Inl err)
    with q assms have "w' = w" "\<forall>p. rep \<noteq> Created p"
      "rep \<noteq> InternalServerError (Str ''sync chunks failed'')"
      by (auto simp add: fileUploadHandler_def mapStructure_queries_def mapStructure_response_def split: if_splits)
    then show ?thesis
      by (intro exI [of _ "[]"]) (simp add: wait_gate_def)
  next
    case (Inr tc)
    then obtain tag_Uid created where tag: "getOrCreateTag s (Header_Get r (SwarmTagHeader s)) = Inr (tag_Uid, created)"
      by (cases tc) auto
    let ?est = "requestCalculateNumberOfChunks r"
    show ?thesis
    proof (cases "\<not> created \<and> ?est > 0 \<and> tag_IncN s (calls w) ?est \<noteq> None")
      case True
      with q tag assms have "w' = call (TagIncN ?est) w"
        "rep = InternalServerError (Str ''increment tag failed'')"
        by (auto simp add: fileUploadHandler_def mapStructure_queries_def mapStructure_response_def Let_def)
      then show ?thesis
        by (intro exI [of _ "[TagIncN ?est]"]) (simp add: wait_gate_def)
    next
      case False
      let ?w1 = "if \<not> created \<and> ?est > 0 then call (TagIncN ?est) w else w"
      let ?evs = "if \<not> created \<and> ?est > 0 then [TagIncN ?est] else []"
      from False q tag assms
      have st: "upload_store s r waitFn tag_Uid created (Query_name r) ?w1 = (w', rep)"
        by (auto simp add: fileUploadHandler_def mapStructure_queries_def mapStructure_response_def Let_def
            split: if_splits)
      have c1: "calls ?w1 = calls w @ ?evs" and p1: "Wait \<notin> set ?evs"
        and h1: "Header ?w1 = Header w"
        by simp_all
      from upload_store_gate [OF st] obtain new where
        n: "calls w' = calls ?w1 @ new" "wait_gate waitFn (calls ?w1) new rep"
        "(\<forall>p. rep \<noteq> Created p) \<longrightarrow> Header w' = Header ?w1"
        by blast
      from n(2) have "wait_gate waitFn (calls w) (?evs @ new) rep"
        unfolding c1 using p1 by (rule wait_gate_prepend)
      moreover have "calls w' = calls w @ (?evs @ new)"
        using n(1) c1 by simp
      moreover have "(\<forall>p. rep \<noteq> Created p) \<longrightarrow> Header w' = Header w"
        using n(3) h1 by simp
      ultimately show ?thesis by blast
    qed
  qed
qed

lemma fileUploadHandler_Created_headers:
  assumes "fileUploadHandler s r waitFn w = (w', Created p)"
  shows "\<exists>manifestReference tag_Uid created.
       p = bzzUploadResponse manifestReference
     \<and> getOrCreateTag s (Header_Get r (SwarmTagHeader s)) = Inr (tag_Uid, created)
     \<and> Header w' = (Header w)
         (CanonicalMIMEHeaderKey ''ETag'' \<mapsto> Sprintf_q (address_String manifestReference),
          CanonicalMIMEHeaderKey (SwarmTagHeader s) \<mapsto> FormatNat tag_Uid,
          CanonicalMIMEHeaderKey ''Access-Control-Expose-Headers'' \<mapsto> SwarmTagHeader s)"
proof -
  from fileUploadHandler_Created [OF assms] obtain tag_Uid created where
    tag: "getOrCreateTag s (Header_Get r (SwarmTagHeader s)) = Inr (tag_Uid, created)"
    and st: "upload_store s r waitFn tag_Uid created (Query_name r)
       (if \<not> created \<and> requestCalculateNumberOfChunks r > 0
        then call (TagIncN (requestCalculateNumberOfChunks r)) w else w)
       = (w', Created p)"
    by blast
  let ?w1 = "if \<not> created \<and> requestCalculateNumberOfChunks r > 0
        then call (TagIncN (requestCalculateNumberOfChunks r)) w else w"
  from upload_store_Created [OF st] obtain fr where
    m: "upload_manifest s r waitFn tag_Uid created fr
       (if Query_name r = [] then address_String fr else Query_name r) (call PipelineStore ?w1)
       = (w', Created p)"
    by blast
  from upload_manifest_Created [OF m] obtain manifestReference where
    "p = bzzUploadResponse manifestReference"
    "Header w' = (Header (call PipelineStore ?w1))
         (CanonicalMIMEHeaderKey ''ETag'' \<mapsto> Sprintf_q (address_String manifestReference),
          CanonicalMIMEHeaderKey (SwarmTagHeader s) \<mapsto> FormatNat tag_Uid,
          CanonicalMIMEHeaderKey ''Access-Control-Expose-Headers'' \<mapsto> SwarmTagHeader s)"
    by blast
  moreover have "Header (call PipelineStore ?w1) = Header w"
    by simp
  ultimately show ?thesis
    using tag by auto
qed

text \<open>
  C5. In every run of the upload handler, with \<open>new\<close> the calls of the run: a response
  \<^verbatim>\<open>Created\<close> comes only after the wait, as the last call, has returned nil, and it
  carries the manifest reference, its quoted hex form as \<^verbatim>\<open>ETag\<close> and the tag id in the
  tag header; when the run waits, the wait is its last call, and an error of the wait
  gives the internal error \<^verbatim>\<open>sync chunks failed\<close> with no header set; and that
  response is given in no other case.
\<close>

theorem upload_waits_before_success:
  assumes "fileUploadHandler s r waitFn w = (w', rep)"
  shows "\<exists>new. calls w' = calls w @ new
     \<and> (\<forall>p. rep = Created p \<longrightarrow>
          (\<exists>pre manifestReference tag_Uid created.
             new = pre @ [Wait] \<and> Wait \<notin> set pre \<and> waitFn (calls w @ pre) = None
           \<and> p = bzzUploadResponse manifestReference
           \<and> getOrCreateTag s (Header_Get r (SwarmTagHeader s)) = Inr (tag_Uid, created)
           \<and> Header w' = (Header w)
               (CanonicalMIMEHeaderKey ''ETag'' \<mapsto> Sprintf_q (address_String manifestReference),
                CanonicalMIMEHeaderKey (SwarmTagHeader s) \<mapsto> FormatNat tag_Uid,
                CanonicalMIMEHeaderKey ''Access-Control-Expose-Headers'' \<mapsto> SwarmTagHeader s)))
     \<and> (Wait \<in> set new \<longrightarrow>
          (\<exists>pre. new = pre @ [Wait] \<and> Wait \<notin> set pre
             \<and> (\<forall>err. waitFn (calls w @ pre) = Some err \<longrightarrow>
                   rep = InternalServerError (Str ''sync chunks failed'')
                 \<and> Header w' = Header w)))
     \<and> (rep = InternalServerError (Str ''sync chunks failed'') \<longrightarrow>
          (\<exists>pre err. new = pre @ [Wait] \<and> Wait \<notin> set pre
             \<and> waitFn (calls w @ pre) = Some err))"
proof -
  from fileUploadHandler_gate [OF assms] obtain new where
    c: "calls w' = calls w @ new" and g: "wait_gate waitFn (calls w) new rep"
    and h: "(\<forall>p. rep \<noteq> Created p) \<longrightarrow> Header w' = Header w"
    by blast
  from g consider
    (none) "Wait \<notin> set new" "\<forall>p. rep \<noteq> Created p"
      "rep \<noteq> InternalServerError (Str ''sync chunks failed'')"
  | (ok) pre manifestReference where "new = pre @ [Wait]" "Wait \<notin> set pre"
      "waitFn (calls w @ pre) = None" "rep = Created (bzzUploadResponse manifestReference)"
  | (failed) pre err where "new = pre @ [Wait]" "Wait \<notin> set pre"
      "waitFn (calls w @ pre) = Some err" "rep = InternalServerError (Str ''sync chunks failed'')"
    unfolding wait_gate_def by (auto split: option.splits)
  then show ?thesis
  proof cases
    case none
    with c show ?thesis by auto
  next
    case ok
    from fileUploadHandler_Created_headers [OF assms [unfolded ok(4)]]
    obtain mref tag_Uid created where
      hd: "bzzUploadResponse manifestReference = bzzUploadResponse mref"
      "getOrCreateTag s (Header_Get r (SwarmTagHeader s)) = Inr (tag_Uid, created)"
      "Header w' = (Header w)
         (CanonicalMIMEHeaderKey ''ETag'' \<mapsto> Sprintf_q (address_String mref),
          CanonicalMIMEHeaderKey (SwarmTagHeader s) \<mapsto> FormatNat tag_Uid,
          CanonicalMIMEHeaderKey ''Access-Control-Expose-Headers'' \<mapsto> SwarmTagHeader s)"
      by blast
    have 1: "\<forall>p. rep = Created p \<longrightarrow>
          (\<exists>pre manifestReference tag_Uid created.
             new = pre @ [Wait] \<and> Wait \<notin> set pre \<and> waitFn (calls w @ pre) = None
           \<and> p = bzzUploadResponse manifestReference
           \<and> getOrCreateTag s (Header_Get r (SwarmTagHeader s)) = Inr (tag_Uid, created)
           \<and> Header w' = (Header w)
               (CanonicalMIMEHeaderKey ''ETag'' \<mapsto> Sprintf_q (address_String manifestReference),
                CanonicalMIMEHeaderKey (SwarmTagHeader s) \<mapsto> FormatNat tag_Uid,
                CanonicalMIMEHeaderKey ''Access-Control-Expose-Headers'' \<mapsto> SwarmTagHeader s))"
      using ok hd by blast
    have 2: "\<exists>pre'. new = pre' @ [Wait] \<and> Wait \<notin> set pre'
             \<and> (\<forall>err. waitFn (calls w @ pre') = Some err \<longrightarrow>
                   rep = InternalServerError (Str ''sync chunks failed'')
                 \<and> Header w' = Header w)"
      using ok by (intro exI [of _ pre]) simp
    have 3: "rep \<noteq> InternalServerError (Str ''sync chunks failed'')"
      using ok by simp
    from c 1 2 3 show ?thesis by blast
  next
    case failed
    with h have hw: "Header w' = Header w" by simp
    have 1: "\<forall>p. rep \<noteq> Created p"
      using failed by simp
    have 2: "\<exists>pre'. new = pre' @ [Wait] \<and> Wait \<notin> set pre'
             \<and> (\<forall>err. waitFn (calls w @ pre') = Some err \<longrightarrow>
                   rep = InternalServerError (Str ''sync chunks failed'')
                 \<and> Header w' = Header w)"
      using failed hw by (intro exI [of _ pre]) simp
    have 3: "\<exists>pre err. new = pre @ [Wait] \<and> Wait \<notin> set pre
             \<and> waitFn (calls w @ pre) = Some err"
      using failed by blast
    from c 1 2 3 show ?thesis by blast
  qed
qed

lemma example_upload_sync_fails:
  "snd (fileUploadHandler example_Service example_request example_wait_fails example_w)
     = InternalServerError (Str ''sync chunks failed'')"
  by (simp add: example_defs example_wait_fails_def upload_defs validate_Struct_def
      strings_HasPrefix_def address_String_examples validate_Struct_address_String)

text \<open>
  The example upload succeeds after its wait, with \<^verbatim>\<open>ETag\<close> and tag header; with a
  wait that fails it is answered with \<^verbatim>\<open>sync chunks failed\<close> and no header.
\<close>

theorem upload_waits_before_success_witness:
  "snd (fileUploadHandler example_Service example_request example_wait example_w)
     = Created (bzzUploadResponse [0x99])
   \<and> last (calls (fst (fileUploadHandler example_Service example_request example_wait example_w)))
     = Wait
   \<and> Header (fst (fileUploadHandler example_Service example_request example_wait example_w)) ''Etag''
     = Some (Sprintf_q ''99'')
   \<and> Header (fst (fileUploadHandler example_Service example_request example_wait example_w))
       ''Swarm-Tag'' = Some ''1''
   \<and> snd (fileUploadHandler example_Service example_request example_wait_fails example_w)
     = InternalServerError (Str ''sync chunks failed'')
   \<and> last (calls (fst (fileUploadHandler example_Service example_request example_wait_fails
                         example_w))) = Wait
   \<and> Header (fst (fileUploadHandler example_Service example_request example_wait_fails example_w))
     = Map.empty"
proof -
  let ?run1 = "fileUploadHandler example_Service example_request example_wait example_w"
  let ?run2 = "fileUploadHandler example_Service example_request example_wait_fails example_w"
  have w0: "calls example_w = []" "Header example_w = Map.empty"
    and tag: "getOrCreateTag example_Service (Header_Get example_request (SwarmTagHeader example_Service)) = Inr (1, True)"
    and th: "SwarmTagHeader example_Service = ''Swarm-Tag''"
    by (simp_all add: example_defs)
  have r1: "?run1 = (fst ?run1, Created (bzzUploadResponse [0x99]))"
    using example_upload_created by (metis prod.collapse)
  have r2: "?run2 = (fst ?run2, InternalServerError (Str ''sync chunks failed''))"
    using example_upload_sync_fails by (metis prod.collapse)
  from upload_waits_before_success [OF r1] w0 tag
  obtain pre where "calls (fst ?run1) = pre @ [Wait]"
    and h1: "Header (fst ?run1) = Map.empty
         (CanonicalMIMEHeaderKey ''ETag'' \<mapsto> Sprintf_q (address_String [0x99]),
          CanonicalMIMEHeaderKey (SwarmTagHeader example_Service) \<mapsto> FormatNat 1,
          CanonicalMIMEHeaderKey ''Access-Control-Expose-Headers'' \<mapsto> SwarmTagHeader example_Service)"
    by auto
  then have a: "last (calls (fst ?run1)) = Wait"
    by simp
  have b: "Header (fst ?run1) ''Etag'' = Some (Sprintf_q ''99'')
         \<and> Header (fst ?run1) ''Swarm-Tag'' = Some ''1''"
    unfolding h1 th canonical_constants canonical_examples address_String_examples
    by (simp add: FormatNat.simps)
  from upload_waits_before_success [OF r2] w0
  obtain new where n: "calls (fst ?run2) = new"
    "Wait \<in> set new \<longrightarrow>
          (\<exists>pre. new = pre @ [Wait] \<and> Wait \<notin> set pre
             \<and> (\<forall>err. example_wait_fails (pre) = Some err \<longrightarrow>
                   Header (fst ?run2) = Map.empty))"
    "\<exists>pre err. new = pre @ [Wait] \<and> Wait \<notin> set pre \<and> example_wait_fails pre = Some err"
    by auto
  from n(3) obtain pre2 where p2: "new = pre2 @ [Wait]"
    by blast
  with n(1) have c: "last (calls (fst ?run2)) = Wait"
    by simp
  from p2 n(2) have d: "Header (fst ?run2) = Map.empty"
    by (auto simp add: example_wait_fails_def)
  from a b c d example_upload_created example_upload_sync_fails show ?thesis
    by blast
qed

end
